theory Spec2Isabelle
  imports Complex_Main
begin

section \<open>JavaScript strings\<close>

text \<open>
  Strings are byte strings (UTF-8). The source only ever compares them with ASCII
  patterns, joins them and trims them, so the byte view and JavaScript's code-unit view
  agree on everything below. \<open>trim\<close> removes the ECMAScript WhiteSpace and
  LineTerminator code points, each in its UTF-8 encoding, from both ends.
\<close>

definition startsWith :: "string \<Rightarrow> string \<Rightarrow> bool" where
  "startsWith s p = (take (length p) s = p)"

fun includes_str :: "string \<Rightarrow> string \<Rightarrow> bool" where
  "includes_str [] p = (p = [])"
| "includes_str (c # cs) p = (startsWith (c # cs) p \<or> includes_str cs p)"

fun join :: "string \<Rightarrow> string list \<Rightarrow> string" where
  "join sep [] = []"
| "join sep [x] = x"
| "join sep (x # y # ys) = x @ sep @ join sep (y # ys)"

definition whiteSpace :: "string list" where
  "whiteSpace =
     [[CHR 0x09], [CHR 0x0A], [CHR 0x0B], [CHR 0x0C], [CHR 0x0D], [CHR 0x20],
      [CHR 0xC2, CHR 0xA0], [CHR 0xE1, CHR 0x9A, CHR 0x80],
      [CHR 0xE2, CHR 0x80, CHR 0x80], [CHR 0xE2, CHR 0x80, CHR 0x81],
      [CHR 0xE2, CHR 0x80, CHR 0x82], [CHR 0xE2, CHR 0x80, CHR 0x83],
      [CHR 0xE2, CHR 0x80, CHR 0x84], [CHR 0xE2, CHR 0x80, CHR 0x85],
      [CHR 0xE2, CHR 0x80, CHR 0x86], [CHR 0xE2, CHR 0x80, CHR 0x87],
      [CHR 0xE2, CHR 0x80, CHR 0x88], [CHR 0xE2, CHR 0x80, CHR 0x89],
      [CHR 0xE2, CHR 0x80, CHR 0x8A], [CHR 0xE2, CHR 0x80, CHR 0xA8],
      [CHR 0xE2, CHR 0x80, CHR 0xA9], [CHR 0xE2, CHR 0x80, CHR 0xAF],
      [CHR 0xE2, CHR 0x81, CHR 0x9F], [CHR 0xE3, CHR 0x80, CHR 0x80],
      [CHR 0xEF, CHR 0xBB, CHR 0xBF]]"

text \<open>The length of the first pattern that starts the string, 0 when none does.\<close>

fun matchLen :: "string list \<Rightarrow> string \<Rightarrow> nat" where
  "matchLen [] s = 0"
| "matchLen (p # ps) s = (if p \<noteq> [] \<and> startsWith s p then length p else matchLen ps s)"

text \<open>
  Stripping leading patterns. The first argument bounds the number of rounds; every round
  removes at least one byte, so \<open>length s\<close> rounds are enough.
\<close>

fun stripLeading :: "nat \<Rightarrow> string list \<Rightarrow> string \<Rightarrow> string" where
  "stripLeading 0 ps s = s"
| "stripLeading (Suc n) ps s =
     (if matchLen ps s = 0 then s else stripLeading n ps (drop (matchLen ps s) s))"

definition trimStart :: "string \<Rightarrow> string" where
  "trimStart s = stripLeading (length s) whiteSpace s"

definition trimEnd :: "string \<Rightarrow> string" where
  "trimEnd s = rev (stripLeading (length s) (map rev whiteSpace) (rev s))"

definition trim :: "string \<Rightarrow> string" where
  "trim s = trimEnd (trimStart s)"

section \<open>The interview session (components/InterviewSession.tsx)\<close>

subsection \<open>Data\<close>

datatype conn_status = connecting | connected | error

datatype speaker = user | ai

record transcriptLine =
  speaker :: speaker
  lineText :: string

text \<open>
  The live session handle held in \<open>sessionRef\<close>. Its two calls sit in
  \<open>try\<close>/\<open>catch\<close> blocks in the source, so whether they throw is part of the handle.
\<close>

record liveSession =
  sendThrows :: bool
  closeThrows :: bool

text \<open>A track of the captured media stream; \<open>audio\<close> tells microphone from camera.\<close>

record track =
  audio :: bool
  enabled :: bool

text \<open>A scheduled \<open>AudioBufferSourceNode\<close>: its start time and its buffer's duration.\<close>

record playbackSource =
  startAt :: real
  duration :: real

text \<open>The callbacks handed to \<open>setTimeout\<close>.\<close>

datatype task =
    Teardown string
  | ClearViolation
  | ClearSilenceTriggered

text \<open>
  The component's state variables and refs, under the source's names, followed by what
  the component does to its surroundings: the timeouts it has set and that have not fired
  (delay in milliseconds and callback), the number of runs of \<open>disconnect\<close>, the
  calls of \<open>onComplete\<close> (transcript and reason), the text directives accepted by
  the session handle, and the playback sources it has stopped. The clocks the component
  reads (\<open>Date.now()\<close> in milliseconds, \<open>ctx.currentTime\<close> in seconds) are
  arguments of the handlers that read them.
\<close>

record session =
  status :: conn_status
  isMuted :: bool
  transcriptLines :: "transcriptLine list"
  isUserSpeaking :: bool
  silenceTriggered :: bool
  systemMessageStatus :: "string option"
  timeLeft :: int
  warningCount :: nat
  violationMessage :: "string option"
  isMounted :: bool
  scriptProcessor :: bool
  sources :: "playbackSource list"
  nextAudioStartTime :: real
  sessionRef :: "liveSession option"
  streamRef :: "track list option"
  terminationTriggered :: bool
  isConnected :: bool
  isAiSpeaking :: bool
  lastUserSpeechTime :: int
  noiseFloor :: real
  fullTranscriptHistory :: "string list"
  isWaitingForResponse :: bool
  lastAiTurnEndTime :: int
  isProcessingTimeout :: bool
  silenceWarningCount :: nat
  timeouts :: "(nat \<times> task) list"
  teardowns :: nat
  completions :: "(string \<times> string) list"
  directives :: "string list"
  stoppedSources :: "playbackSource list"

definition initialSession :: "int \<Rightarrow> session" where
  "initialSession t0 =
     \<lparr>status = connecting, isMuted = False, transcriptLines = [], isUserSpeaking = False,
      silenceTriggered = False, systemMessageStatus = None, timeLeft = 600,
      warningCount = 0, violationMessage = None, isMounted = False,
      scriptProcessor = False, sources = [], nextAudioStartTime = 0, sessionRef = None,
      streamRef = None, terminationTriggered = False, isConnected = False,
      isAiSpeaking = False, lastUserSpeechTime = t0, noiseFloor = 0.002,
      fullTranscriptHistory = [], isWaitingForResponse = False, lastAiTurnEndTime = 0,
      isProcessingTimeout = False, silenceWarningCount = 0, timeouts = [], teardowns = 0,
      completions = [], directives = [], stoppedSources = []\<rparr>"

subsection \<open>Teardown and termination\<close>

text \<open>
  \<open>disconnect\<close>: the session handle is forgotten only when its \<open>close\<close> does not
  throw; the media tracks are stopped and the stream is forgotten; every active playback
  source is stopped and the set cleared; the cursor goes back to 0. Closing the two audio
  contexts and cancelling the animation frame leave no trace in the state.
\<close>

definition disconnect :: "session \<Rightarrow> session" where
  "disconnect s =
     (let s1 = s\<lparr>isConnected := False, scriptProcessor := False\<rparr>;
          s2 = (case sessionRef s1 of
                  None \<Rightarrow> s1
                | Some h \<Rightarrow> if closeThrows h then s1 else s1\<lparr>sessionRef := None\<rparr>);
          s3 = (case streamRef s2 of None \<Rightarrow> s2 | Some ts \<Rightarrow> s2\<lparr>streamRef := None\<rparr>)
      in s3\<lparr>stoppedSources := stoppedSources s3 @ sources s3, sources := [],
            nextAudioStartTime := 0, teardowns := teardowns s3 + 1\<rparr>)"

definition handleTermination :: "string \<Rightarrow> session \<Rightarrow> session" where
  "handleTermination reason s =
     (if terminationTriggered s then s
      else s\<lparr>terminationTriggered := True,
             timeouts := timeouts s @ [(2000, Teardown reason)]\<rparr>)"

text \<open>What a timeout's callback does when it fires.\<close>

fun runTask :: "task \<Rightarrow> session \<Rightarrow> session" where
  "runTask (Teardown reason) s =
     (let s' = disconnect s
      in s'\<lparr>completions :=
              completions s' @ [(join [CHR 0x0A] (fullTranscriptHistory s'), reason)]\<rparr>)"
| "runTask ClearViolation s = s\<lparr>violationMessage := None\<rparr>"
| "runTask ClearSilenceTriggered s = s\<lparr>silenceTriggered := False\<rparr>"

text \<open>The \<open>i\<close>-th pending timeout fires: it leaves the list and its callback runs.\<close>

definition fireTimeout :: "nat \<Rightarrow> session \<Rightarrow> session" where
  "fireTimeout i s =
     (if i < length (timeouts s)
      then runTask (snd (timeouts s ! i))
             (s\<lparr>timeouts := take i (timeouts s) @ drop (Suc i) (timeouts s)\<rparr>)
      else s)"

subsection \<open>Countdown and proctoring\<close>

text \<open>
  One tick of the countdown interval, which exists while the status is \<open>connected\<close>.
\<close>

definition countdownTick :: "session \<Rightarrow> session" where
  "countdownTick s =
     (if status s \<noteq> connected then s
      else if timeLeft s \<le> 1
           then handleTermination ''Time Limit Exceeded'' (s\<lparr>timeLeft := 0\<rparr>)
           else s\<lparr>timeLeft := timeLeft s - 1\<rparr>)"

definition securityViolation :: string where
  "securityViolation = ''Security Violation: Multiple breaches detected.''"

definition triggerViolation :: "string \<Rightarrow> session \<Rightarrow> session" where
  "triggerViolation msg s =
     (let s1 = s\<lparr>violationMessage := Some msg\<rparr>;
          newCount = warningCount s1 + 1;
          s2 = (if newCount \<ge> 3 then handleTermination securityViolation s1 else s1);
          s3 = s2\<lparr>warningCount := newCount\<rparr>
      in s3\<lparr>timeouts := timeouts s3 @ [(3000, ClearViolation)]\<rparr>)"

definition handleVisibilityChange :: "bool \<Rightarrow> session \<Rightarrow> session" where
  "handleVisibilityChange hidden s =
     (if hidden then triggerViolation ''Tab switch detected.'' s else s)"

text \<open>The context-menu listener only calls \<open>preventDefault\<close> on the event.\<close>

definition preventContextMenu :: "session \<Rightarrow> session" where
  "preventContextMenu s = s"

subsection \<open>Session open and the capture loop\<close>

definition onopen :: "int \<Rightarrow> session \<Rightarrow> session" where
  "onopen now s =
     (if \<not> isMounted s then s
      else s\<lparr>status := connected, isConnected := True, lastUserSpeechTime := now,
             nextAudioStartTime := 0\<rparr>)"

definition onerror :: "session \<Rightarrow> session" where
  "onerror s = s\<lparr>status := error\<rparr>"

definition onclose :: "session \<Rightarrow> session" where
  "onclose s = (if isConnected s then s\<lparr>status := connecting\<rparr> else s)"

text \<open>
  The voice-activity detector. JavaScript numbers are taken as real numbers: rounding,
  infinities and the not-a-number value are not modelled, except that the frame without
  samples (whose RMS is \<open>0/0\<close>) is given its own branch below.
\<close>

definition frameRms :: "real list \<Rightarrow> real" where
  "frameRms inputData =
     sqrt (sum_list (map (\<lambda>x. x * x) inputData) / real (length inputData))"

definition alpha :: real where
  "alpha = 0.05"

definition adaptNoiseFloor :: "real \<Rightarrow> real \<Rightarrow> real" where
  "adaptNoiseFloor currentNoise rms =
     (if rms < currentNoise then (currentNoise * 0.90) + (rms * 0.10)
      else if rms < currentNoise * 3 then (currentNoise * (1 - alpha)) + (rms * alpha)
      else currentNoise)"

definition detectionThreshold :: "real \<Rightarrow> real" where
  "detectionThreshold noise = max 0.03 (noise * 6)"

definition vadStep :: "int \<Rightarrow> real \<Rightarrow> session \<Rightarrow> session" where
  "vadStep now rms s =
     (let s1 = s\<lparr>noiseFloor := adaptNoiseFloor (noiseFloor s) rms\<rparr>
      in if rms > detectionThreshold (noiseFloor s1)
         then s1\<lparr>lastUserSpeechTime := now, isUserSpeaking := True,
                 isWaitingForResponse := False, systemMessageStatus := None,
                 silenceWarningCount := 0\<rparr>
         else s1\<lparr>isUserSpeaking := False\<rparr>)"

text \<open>
  \<open>onaudioprocess\<close>, up to the classification; the frame is then resampled and sent
  whatever the classification was, which changes nothing below. On a frame without
  samples every comparison with the RMS is false.
\<close>

definition onaudioprocess :: "int \<Rightarrow> real list \<Rightarrow> session \<Rightarrow> session" where
  "onaudioprocess now inputData s =
     (if \<not> isConnected s \<or> \<not> isMounted s then s
      else if inputData = [] then s\<lparr>isUserSpeaking := False\<rparr>
      else vadStep now (frameRms inputData) s)"

subsection \<open>Inbound messages\<close>

record functionCall =
  fcName :: string
  fcReason :: "string option"

text \<open>
  \<open>serverContent\<close>: \<open>modelText\<close> is \<open>modelTurn.parts[0].text\<close>,
  \<open>inputTranscription\<close> is \<open>inputTranscription.text\<close>. Inline audio is decoded
  asynchronously and scheduled by \<open>enqueueAudio\<close> when the decoding is done.
\<close>

record serverContent =
  turnComplete :: bool
  interrupted :: bool
  modelText :: "string option"
  inputTranscription :: "string option"

record message =
  toolCall :: "functionCall list option"
  content :: "serverContent option"

definition toolCallBranch :: "functionCall list \<Rightarrow> session \<Rightarrow> session" where
  "toolCallBranch functionCalls s =
     (case find (\<lambda>f. fcName f = ''endInterview'') functionCalls of
        None \<Rightarrow> s
      | Some call \<Rightarrow>
          handleTermination
            (case fcReason call of
               None \<Rightarrow> ''Completed''
             | Some r \<Rightarrow> if r = [] then ''Completed'' else r) s)"

text \<open>The interruption branch: the playback flush and the flags it clears.\<close>

definition interruptedBranch :: "session \<Rightarrow> session" where
  "interruptedBranch s =
     s\<lparr>stoppedSources := stoppedSources s @ sources s, sources := [],
       nextAudioStartTime := 0, isAiSpeaking := False, isWaitingForResponse := False,
       systemMessageStatus := None, isProcessingTimeout := False\<rparr>"

definition contentBranch :: "session \<Rightarrow> session" where
  "contentBranch s =
     s\<lparr>isAiSpeaking := True, lastAiTurnEndTime := 0, isWaitingForResponse := False,
       systemMessageStatus := None, isProcessingTimeout := False\<rparr>"

definition turnCompleteBranch :: "int \<Rightarrow> session \<Rightarrow> session" where
  "turnCompleteBranch now s =
     s\<lparr>isAiSpeaking := False, lastAiTurnEndTime := now, isWaitingForResponse := True\<rparr>"

definition aiTranscript :: "string \<Rightarrow> session \<Rightarrow> session" where
  "aiTranscript t s =
     (let displayText = trim t
      in if displayText = [] then s
         else s\<lparr>transcriptLines :=
                  (let prev = transcriptLines s
                   in if prev \<noteq> [] \<and> speaker (last prev) = ai
                      then butlast prev @
                           [(last prev)\<lparr>lineText :=
                               lineText (last prev) @ '' '' @ displayText\<rparr>]
                      else prev @ [\<lparr>speaker = ai, lineText = displayText\<rparr>]),
                fullTranscriptHistory :=
                  (let h = fullTranscriptHistory s
                   in if length h > 0 \<and> startsWith (last h) ''AI:''
                      then butlast h @ [last h @ '' '' @ displayText]
                      else h @ [''AI: '' @ displayText])\<rparr>)"

definition userTranscript :: "string \<Rightarrow> session \<Rightarrow> session" where
  "userTranscript t s =
     (if t = [] then s
      else s\<lparr>transcriptLines :=
               (let prev = transcriptLines s
                in if prev \<noteq> [] \<and> speaker (last prev) = user
                   then butlast prev @
                        [(last prev)\<lparr>lineText := lineText (last prev) @ t\<rparr>]
                   else prev @ [\<lparr>speaker = user, lineText = t\<rparr>]),
             fullTranscriptHistory :=
               (let h = fullTranscriptHistory s
                in if length h > 0 \<and> startsWith (last h) ''User:''
                   then butlast h @ [last h @ t]
                   else h @ [''User: '' @ t])\<rparr>)"

text \<open>\<open>onmessage\<close> up to its \<open>await\<close>: the branches in the order of the source.\<close>

definition onmessage :: "int \<Rightarrow> message \<Rightarrow> session \<Rightarrow> session" where
  "onmessage now m s =
     (let s1 = (case toolCall m of None \<Rightarrow> s | Some fcs \<Rightarrow> toolCallBranch fcs s)
      in case content m of
           None \<Rightarrow> s1
         | Some c \<Rightarrow>
             (let s2 = (if interrupted c then interruptedBranch s1 else s1);
                  s3 = contentBranch s2;
                  s4 = (if turnComplete c then turnCompleteBranch now s3 else s3);
                  s5 = (case modelText c of None \<Rightarrow> s4 | Some t \<Rightarrow> aiTranscript t s4)
              in case inputTranscription c of
                   None \<Rightarrow> s5
                 | Some t \<Rightarrow> userTranscript t s5))"

text \<open>
  The audio branch after the decoding: \<open>now\<close> is \<open>ctx.currentTime\<close> and \<open>d\<close> the
  decoded buffer's duration (\<open>decodeAudioData\<close> is in utils/audio, outside the files at
  hand, so the duration is an argument).
\<close>

definition enqueueAudio :: "real \<Rightarrow> real \<Rightarrow> session \<Rightarrow> session" where
  "enqueueAudio now d s =
     (let startTime = max now (nextAudioStartTime s)
      in s\<lparr>nextAudioStartTime := startTime + d,
           sources := sources s @ [\<lparr>startAt = startTime, duration = d\<rparr>]\<rparr>)"

text \<open>\<open>source.onended\<close>: the source leaves the active set.\<close>

definition sourceEnded :: "nat \<Rightarrow> session \<Rightarrow> session" where
  "sourceEnded i s = s\<lparr>sources := take i (sources s) @ drop (Suc i) (sources s)\<rparr>"

subsection \<open>The silence monitor\<close>

definition silentDirective :: string where
  "silentDirective =
     ''System Alert: Candidate is silent. Say exactly: '' @ [CHR 0x27] @
     ''Please start answering when you'' @ [CHR 0xE2, CHR 0x80, CHR 0x99] @
     ''re ready.'' @ [CHR 0x27]"

definition stillSilentDirective :: string where
  "stillSilentDirective =
     ''System Alert: Candidate is still silent. Treat this as a failed answer. '' @
     ''Say exactly: '' @ [CHR 0x27] @ ''I will continue to the next question.'' @
     [CHR 0x27] @ '' and ask the next question.''"

definition silentEntry :: string where
  "silentEntry = ''[No Answer - Time Limit Exceeded]''"

definition sendSystemMessage :: "string \<Rightarrow> session \<Rightarrow> session" where
  "sendSystemMessage t s =
     (case sessionRef s of
        None \<Rightarrow> s
      | Some h \<Rightarrow>
          if sendThrows h then s
          else s\<lparr>directives := directives s @ [t],
                 systemMessageStatus :=
                   Some (''System: Prompting AI ('' @
                         (if includes_str t ''still'' then ''Skip'' else ''Reminder'') @
                         '')...''),
                 silenceTriggered := True,
                 timeouts := timeouts s @ [(3000, ClearSilenceTriggered)]\<rparr>)"

definition silenceInterval :: "int \<Rightarrow> session \<Rightarrow> session" where
  "silenceInterval now s =
     (if \<not> isConnected s then s
      else if isWaitingForResponse s \<and> \<not> isAiSpeaking s \<and> \<not> isProcessingTimeout s
      then (let timeSinceAiFinished = now - lastAiTurnEndTime s
            in if timeSinceAiFinished > 10000
               then (let s1 = s\<lparr>isProcessingTimeout := True,
                                   silenceWarningCount := silenceWarningCount s + 1\<rparr>
                     in if silenceWarningCount s1 > 2
                        then sendSystemMessage stillSilentDirective
                               (s1\<lparr>transcriptLines :=
                                      transcriptLines s1 @
                                      [\<lparr>speaker = user, lineText = silentEntry\<rparr>],
                                    fullTranscriptHistory :=
                                      fullTranscriptHistory s1 @ [''User: '' @ silentEntry],
                                    silenceWarningCount := 0\<rparr>)
                        else sendSystemMessage silentDirective s1)
               else s)
      else s)"

subsection \<open>Mute\<close>

definition toggleMute :: "session \<Rightarrow> session" where
  "toggleMute s =
     (case streamRef s of
        None \<Rightarrow> s
      | Some ts \<Rightarrow>
          s\<lparr>streamRef :=
               Some (map (\<lambda>t. if audio t then t\<lparr>enabled := \<not> isMuted s\<rparr> else t) ts),
            isMuted := \<not> isMuted s\<rparr>)"

subsection \<open>The event loop\<close>

text \<open>
  Everything runs on one thread, one handler at a time; an execution is a list of events.
  \<open>Mounted\<close>, \<open>MediaAcquired\<close> and \<open>Connected\<close> are the parts of the mount
  effect and of \<open>initSession\<close> the handlers depend on: the mount flag, the media
  stream with the script processor, and the live session handle arriving in
  \<open>sessionRef\<close>. \<open>Terminate\<close> is a call of \<open>handleTermination\<close> from any
  other place. The execution ends with the call of \<open>onComplete\<close>, on which the caller
  unmounts the component.
\<close>

datatype event =
    Mounted
  | MediaAcquired "track list"
  | Connected liveSession
  | Opened int
  | SocketError
  | SocketClosed
  | AudioFrame int "real list"
  | Message int message
  | AudioDecoded real real
  | SourceEnded nat
  | SilenceTick int
  | CountdownTick
  | VisibilityChange bool
  | ContextMenu
  | ToggleMute
  | TimeoutFires nat
  | Terminate string

fun step :: "event \<Rightarrow> session \<Rightarrow> session" where
  "step Mounted s = s\<lparr>isMounted := True\<rparr>"
| "step (MediaAcquired ts) s = s\<lparr>streamRef := Some ts, scriptProcessor := True\<rparr>"
| "step (Connected h) s = s\<lparr>sessionRef := Some h\<rparr>"
| "step (Opened now) s = onopen now s"
| "step SocketError s = onerror s"
| "step SocketClosed s = onclose s"
| "step (AudioFrame now inputData) s = onaudioprocess now inputData s"
| "step (Message now m) s = onmessage now m s"
| "step (AudioDecoded now d) s = enqueueAudio now d s"
| "step (SourceEnded i) s = sourceEnded i s"
| "step (SilenceTick now) s = silenceInterval now s"
| "step CountdownTick s = countdownTick s"
| "step (VisibilityChange hidden) s = handleVisibilityChange hidden s"
| "step ContextMenu s = preventContextMenu s"
| "step ToggleMute s = toggleMute s"
| "step (TimeoutFires i) s = fireTimeout i s"
| "step (Terminate reason) s = handleTermination reason s"

fun run :: "event list \<Rightarrow> session \<Rightarrow> session" where
  "run [] s = s"
| "run (e # es) s = run es (step e s)"

text \<open>
  The cleanup of the mount effect, run when the caller unmounts the component (clearing
  the silence interval leaves no trace in the state).
\<close>

definition unmountCleanup :: "session \<Rightarrow> session" where
  "unmountCleanup s = disconnect (s\<lparr>isMounted := False\<rparr>)"

section \<open>The completion handler (App.tsx)\<close>

datatype appStep = FORM | INSTRUCTIONS | INTERVIEW | EVALUATING | RESULT

text \<open>JavaScript values as \<open>JSON.parse\<close> returns them.\<close>

datatype json =
    JNull
  | JBool bool
  | JNumber real
  | JString string
  | JArray "json list"
  | JObject "(string \<times> json) list"

record interviewResult =
  rating :: json
  feedback :: json
  passed :: bool
  questions :: json
  terminationReason :: "string option"

datatype appTask = ReportDisqualified string

text \<open>
  The application's state, the timeouts it has set (delay and callback) and the
  transcripts it has submitted for scoring.
\<close>

record app =
  appStep :: appStep
  result :: "interviewResult option"
  appTimeouts :: "(nat \<times> appTask) list"
  scoringRequests :: "string list"

text \<open>
  What the scoring request comes to: it throws or is rejected, or it answers with
  \<open>response.text\<close> (possibly absent) together with what \<open>JSON.parse\<close> makes of that
  text (\<open>None\<close> when it throws a syntax error).
\<close>

datatype scoringReply =
    Rejected
  | Responded "string option" "json option"

definition truthy :: "json \<Rightarrow> bool" where
  "truthy v =
     (case v of
        JNull \<Rightarrow> False
      | JBool b \<Rightarrow> b
      | JNumber r \<Rightarrow> r \<noteq> 0
      | JString t \<Rightarrow> t \<noteq> []
      | JArray xs \<Rightarrow> True
      | JObject kvs \<Rightarrow> True)"

text \<open>
  \<open>data.key\<close> for a value other than \<open>null\<close>: a property that is not there is
  \<open>undefined\<close> (\<open>None\<close>). Booleans, numbers, strings and arrays have none of the
  properties read here.
\<close>

definition getProp :: "json \<Rightarrow> string \<Rightarrow> json option" where
  "getProp data key = (case data of JObject kvs \<Rightarrow> map_of kvs key | _ \<Rightarrow> None)"

text \<open>\<open>v || d\<close> for a property value \<open>v\<close>.\<close>

definition orElse :: "json option \<Rightarrow> json \<Rightarrow> json" where
  "orElse v d = (case v of None \<Rightarrow> d | Some x \<Rightarrow> if truthy x then x else d)"

text \<open>
  \<open>rating > 6\<close>. The conversion of a string, array or object to a number is the
  argument \<open>toNumber\<close> (\<open>None\<close> for not-a-number).
\<close>

definition greaterThan6 :: "(json \<Rightarrow> real option) \<Rightarrow> json \<Rightarrow> bool" where
  "greaterThan6 toNumber v =
     (case v of
        JNull \<Rightarrow> False
      | JBool b \<Rightarrow> False
      | JNumber r \<Rightarrow> r > 6
      | _ \<Rightarrow> (case toNumber v of None \<Rightarrow> False | Some r \<Rightarrow> r > 6))"

definition evaluationFailed :: "app \<Rightarrow> app" where
  "evaluationFailed a =
     a\<lparr>result := Some \<lparr>rating = JNumber 0,
                          feedback =
                            JString ''An error occurred during evaluation. Please try again.'',
                          passed = False, questions = JArray [],
                          terminationReason = None\<rparr>,
       appStep := RESULT\<rparr>"

text \<open>
  The \<open>try\<close> block: the request is issued; a rejected request, a text that does not
  parse and the property read on a parsed \<open>null\<close> all end in the \<open>catch\<close> block.
\<close>

definition scoreTranscript ::
  "(json \<Rightarrow> real option) \<Rightarrow> string \<Rightarrow> scoringReply \<Rightarrow> app \<Rightarrow> app" where
  "scoreTranscript toNumber transcript reply a =
     (let a1 = a\<lparr>scoringRequests := scoringRequests a @ [transcript]\<rparr>
      in case reply of
           Rejected \<Rightarrow> evaluationFailed a1
         | Responded t parsed \<Rightarrow>
             (case (if t = None \<or> t = Some [] then Some (JObject []) else parsed) of
                None \<Rightarrow> evaluationFailed a1
              | Some JNull \<Rightarrow> evaluationFailed a1
              | Some data \<Rightarrow>
                  (let rating = orElse (getProp data ''rating'') (JNumber 0);
                       passed = greaterThan6 toNumber rating
                   in a1\<lparr>result :=
                           Some \<lparr>rating = rating,
                                 feedback =
                                   orElse (getProp data ''feedback'')
                                     (JString ''No feedback provided.''),
                                 passed = passed,
                                 questions = orElse (getProp data ''questions'') (JArray []),
                                 terminationReason = None\<rparr>,
                         appStep := RESULT\<rparr>)))"

definition handleInterviewComplete ::
  "(json \<Rightarrow> real option) \<Rightarrow> string \<Rightarrow> string option \<Rightarrow> scoringReply \<Rightarrow> app \<Rightarrow> app" where
  "handleInterviewComplete toNumber transcript reason reply a =
     (let a1 = a\<lparr>appStep := EVALUATING\<rparr>
      in case reason of
           None \<Rightarrow> scoreTranscript toNumber transcript reply a1
         | Some r \<Rightarrow>
             if r \<noteq> [] \<and> r \<noteq> ''Completed''
             then a1\<lparr>appTimeouts := appTimeouts a1 @ [(1500, ReportDisqualified r)]\<rparr>
             else scoreTranscript toNumber transcript reply a1)"



section \<open>Properties: the vocabulary of the statements\<close>

subsection \<open>The termination latch\<close>

text \<open>The reasons of the teardown timeouts that are set and have not fired.\<close>

fun taskReasons :: "(nat \<times> task) list \<Rightarrow> string list" where
  "taskReasons [] = []"
| "taskReasons ((d, Teardown r) # ts) = r # taskReasons ts"
| "taskReasons (x # ts) = taskReasons ts"

definition pendingReasons :: "session \<Rightarrow> string list" where
  "pendingReasons s = taskReasons (timeouts s)"

text \<open>
  The two phases after a termination with reason \<open>r\<close> has been accepted: its teardown
  is pending and nothing has run, or the teardown has run once and \<open>onComplete\<close> has
  been called once, with \<open>r\<close>.
\<close>

definition latched :: "string \<Rightarrow> session \<Rightarrow> bool" where
  "latched r s =
     (terminationTriggered s \<and>
      ((pendingReasons s = [r] \<and> completions s = [] \<and> teardowns s = 0) \<or>
       (pendingReasons s = [] \<and> map snd (completions s) = [r] \<and> teardowns s = 1)))"

text \<open>No termination has been accepted yet.\<close>

definition unlatched :: "session \<Rightarrow> bool" where
  "unlatched s =
     (\<not> terminationTriggered s \<and> pendingReasons s = [] \<and> completions s = [] \<and>
      teardowns s = 0)"

text \<open>
  Three tab switches, then a direct call and the agent's \<open>endInterview\<close> call.
\<close>

definition raceSession :: session where
  "raceSession =
     run [Mounted, Opened 5, VisibilityChange True, VisibilityChange True,
          VisibilityChange True, Terminate ''Time Limit Exceeded'',
          Message 7 \<lparr>toolCall = Some [\<lparr>fcName = ''endInterview'', fcReason = Some ''Completed''\<rparr>],
                     content = None\<rparr>]
       (initialSession 0)"

subsection \<open>The silence monitor\<close>

text \<open>The session handle is held and accepts a send.\<close>

definition canSend :: "session \<Rightarrow> bool" where
  "canSend s = (case sessionRef s of None \<Rightarrow> False | Some h \<Rightarrow> \<not> sendThrows h)"

definition promptStatus :: "string \<Rightarrow> string" where
  "promptStatus kind = ''System: Prompting AI ('' @ kind @ '')...''"

text \<open>A session whose agent has just finished a turn, at time 1000.\<close>

definition awaitingSession :: "liveSession \<Rightarrow> session" where
  "awaitingSession h =
     run [Mounted, Opened 0, Connected h,
          Message 1000 \<lparr>toolCall = None,
                         content = Some \<lparr>turnComplete = True, interrupted = False,
                                          modelText = None, inputTranscription = None\<rparr>\<rparr>]
       (initialSession 0)"

text \<open>The agent answers and ends its turn.\<close>

definition turnEnds :: "int \<Rightarrow> event" where
  "turnEnds now =
     Message now \<lparr>toolCall = None,
                   content = Some \<lparr>turnComplete = True, interrupted = False,
                                    modelText = None, inputTranscription = None\<rparr>\<rparr>"

text \<open>Two reminders, each answered by the agent, with the candidate silent.\<close>

definition twoStrikes :: "liveSession \<Rightarrow> session" where
  "twoStrikes h =
     run [SilenceTick 12000, turnEnds 13000, SilenceTick 24000, turnEnds 25000]
       (awaitingSession h)"

subsection \<open>The transcript\<close>

text \<open>The history entry of a display line: the speaker's prefix and the line's text.\<close>

definition entry :: "transcriptLine \<Rightarrow> string" where
  "entry l = (case speaker l of ai \<Rightarrow> ''AI: '' | user \<Rightarrow> ''User: '') @ lineText l"

text \<open>The two representations carry the same content, entry by entry.\<close>

definition agree :: "session \<Rightarrow> bool" where
  "agree s = (fullTranscriptHistory s = map entry (transcriptLines s))"

text \<open>
  Append-or-extend as the specification words it: a fragment of the last line's speaker
  extends that line, joined by \<open>sep\<close>; any other fragment starts a new line.
\<close>

definition mergeFragment ::
  "speaker \<Rightarrow> string \<Rightarrow> string \<Rightarrow> transcriptLine list \<Rightarrow> transcriptLine list" where
  "mergeFragment sp sep frag ls =
     (if ls \<noteq> [] \<and> speaker (last ls) = sp
      then butlast ls @ [\<lparr>speaker = sp, lineText = lineText (last ls) @ sep @ frag\<rparr>]
      else ls @ [\<lparr>speaker = sp, lineText = frag\<rparr>])"

text \<open>A message carrying one agent text fragment, and one carrying a user fragment.\<close>

definition agentSays :: "string \<Rightarrow> event" where
  "agentSays t =
     Message 0 \<lparr>toolCall = None,
                 content = Some \<lparr>turnComplete = False, interrupted = False,
                                  modelText = Some t, inputTranscription = None\<rparr>\<rparr>"

definition userSays :: "string \<Rightarrow> event" where
  "userSays t =
     Message 0 \<lparr>toolCall = None,
                 content = Some \<lparr>turnComplete = False, interrupted = False,
                                  modelText = None, inputTranscription = Some t\<rparr>\<rparr>"

subsection \<open>The voice-activity detector\<close>



text \<open>A connected session, as \<open>onopen\<close> at time 0 leaves it.\<close>

definition listening :: session where
  "listening = run [Mounted, Opened 0] (initialSession 0)"

subsection \<open>The playback scheduler\<close>

text \<open>A message that only reports an interruption.\<close>

definition interruption :: message where
  "interruption =
     \<lparr>toolCall = None,
      content = Some \<lparr>turnComplete = False, interrupted = True, modelText = None,
                       inputTranscription = None\<rparr>\<rparr>"

text \<open>
  The active sources are in schedule order without overlap, none has a negative duration,
  and none ends after the cursor.
\<close>

definition queued :: "session \<Rightarrow> bool" where
  "queued s =
     (sorted_wrt (\<lambda>a b. startAt a + duration a \<le> startAt b) (sources s) \<and>
      list_all (\<lambda>a. 0 \<le> duration a \<and> startAt a + duration a \<le> nextAudioStartTime s)
        (sources s))"

text \<open>
  The events of a stream in progress: any event but the session opening, decoded buffers
  having a duration that is not negative.
\<close>

fun streaming :: "event \<Rightarrow> bool" where
  "streaming (AudioDecoded now d) = (0 \<le> d)"
| "streaming (Opened t) = False"
| "streaming e = True"

subsection \<open>Proctoring\<close>

text \<open>The tab is hidden \<open>n\<close> times in a row.\<close>

definition tabSwitches :: "nat \<Rightarrow> event list" where
  "tabSwitches n = replicate n (VisibilityChange True)"

subsection \<open>Mute\<close>




subsection \<open>The completion handler\<close>

text \<open>The application while the interview is running.\<close>

definition interviewing :: app where
  "interviewing = \<lparr>appStep = INTERVIEW, result = None, appTimeouts = [], scoringRequests = []\<rparr>"


definition errorResult :: interviewResult where
  "errorResult =
     \<lparr>rating = JNumber 0,
      feedback = JString ''An error occurred during evaluation. Please try again.'',
      passed = False, questions = JArray [], terminationReason = None\<rparr>"

text \<open>The result set for a response without text.\<close>

definition emptyResult :: interviewResult where
  "emptyResult =
     \<lparr>rating = JNumber 0, feedback = JString ''No feedback provided.'', passed = False,
      questions = JArray [], terminationReason = None\<rparr>"

text \<open>A response text with a rating of 8 and nothing else.\<close>

definition ratingEight :: string where
  "ratingEight = ''{'' @ [CHR 0x22] @ ''rating'' @ [CHR 0x22] @ '': 8}''"

text \<open>The reasons with which the transcript goes to scoring.\<close>

definition scored :: "string option \<Rightarrow> bool" where
  "scored reason = (reason = None \<or> reason = Some [] \<or> reason = Some ''Completed'')"

section \<open>Properties\<close>

subsection \<open>The termination latch\<close>

lemma taskReasons_append: "taskReasons (xs @ ys) = taskReasons xs @ taskReasons ys"
  by (induction xs rule: taskReasons.induct) simp_all

lemma taskReasons_other: "(\<And>r. t \<noteq> Teardown r) \<Longrightarrow> taskReasons ((d, t) # ts) = taskReasons ts"
  by (cases t) auto

lemma disconnect_fields:
  "terminationTriggered (disconnect s) = terminationTriggered s"
  "timeouts (disconnect s) = timeouts s"
  "completions (disconnect s) = completions s"
  "teardowns (disconnect s) = teardowns s + 1"
  "fullTranscriptHistory (disconnect s) = fullTranscriptHistory s"
  by (simp_all add: disconnect_def Let_def split: option.splits)

lemma sendSystemMessage_fields:
  "terminationTriggered (sendSystemMessage t s) = terminationTriggered s"
  "pendingReasons (sendSystemMessage t s) = pendingReasons s"
  "completions (sendSystemMessage t s) = completions s"
  "teardowns (sendSystemMessage t s) = teardowns s"
  by (simp_all add: sendSystemMessage_def pendingReasons_def taskReasons_append split: option.splits)

lemma silenceInterval_fields:
  "terminationTriggered (silenceInterval now s) = terminationTriggered s"
  "pendingReasons (silenceInterval now s) = pendingReasons s"
  "completions (silenceInterval now s) = completions s"
  "teardowns (silenceInterval now s) = teardowns s"
  by (simp_all add: silenceInterval_def Let_def sendSystemMessage_fields)
     (simp_all add: pendingReasons_def)

lemma onmessage_fields:
  "terminationTriggered (onmessage now m s) =
     terminationTriggered (case toolCall m of None \<Rightarrow> s | Some fcs \<Rightarrow> toolCallBranch fcs s)"
  "timeouts (onmessage now m s) =
     timeouts (case toolCall m of None \<Rightarrow> s | Some fcs \<Rightarrow> toolCallBranch fcs s)"
  "completions (onmessage now m s) =
     completions (case toolCall m of None \<Rightarrow> s | Some fcs \<Rightarrow> toolCallBranch fcs s)"
  "teardowns (onmessage now m s) =
     teardowns (case toolCall m of None \<Rightarrow> s | Some fcs \<Rightarrow> toolCallBranch fcs s)"
  by (simp_all add: onmessage_def Let_def interruptedBranch_def contentBranch_def
      turnCompleteBranch_def aiTranscript_def userTranscript_def split: option.splits)

lemma unlatched_handleTermination: "unlatched s \<Longrightarrow> latched r (handleTermination r s)"
  by (simp add: unlatched_def latched_def handleTermination_def pendingReasons_def
      taskReasons_append)

lemma latched_handleTermination: "latched r s \<Longrightarrow> handleTermination r' s = s"
  by (simp add: latched_def handleTermination_def)

lemma toolCallBranch_latched: "latched r s \<Longrightarrow> toolCallBranch fcs s = s"
  by (simp add: toolCallBranch_def latched_handleTermination split: option.splits)

lemma latched_cong:
  "latched r s \<Longrightarrow> terminationTriggered s' = terminationTriggered s \<Longrightarrow>
   pendingReasons s' = pendingReasons s \<Longrightarrow> completions s' = completions s \<Longrightarrow>
   teardowns s' = teardowns s \<Longrightarrow> latched r s'"
  by (simp add: latched_def)

lemma unlatched_cong:
  "unlatched s \<Longrightarrow> terminationTriggered s' = terminationTriggered s \<Longrightarrow>
   pendingReasons s' = pendingReasons s \<Longrightarrow> completions s' = completions s \<Longrightarrow>
   teardowns s' = teardowns s \<Longrightarrow> unlatched s'"
  by (simp add: unlatched_def)

lemma latched_onmessage: "latched r s \<Longrightarrow> latched r (onmessage now m s)"
  by (frule latched_cong [where s' = "onmessage now m s"])
     (simp_all add: onmessage_fields pendingReasons_def toolCallBranch_latched split: option.splits)

lemma latched_triggerViolation: "latched r s \<Longrightarrow> latched r (triggerViolation msg s)"
  by (frule latched_cong [where s' = "triggerViolation msg s"])
     (simp_all add: triggerViolation_def Let_def handleTermination_def latched_def
       pendingReasons_def taskReasons_append)

lemma latched_countdownTick: "latched r s \<Longrightarrow> latched r (countdownTick s)"
  by (frule latched_cong [where s' = "countdownTick s"])
     (simp_all add: countdownTick_def handleTermination_def latched_def pendingReasons_def)

lemma taskReasons_nth:
  "i < length ts \<Longrightarrow>
   taskReasons ts =
   taskReasons (take i ts) @ taskReasons [ts ! i] @ taskReasons (drop (Suc i) ts)"
  by (metis taskReasons_append id_take_nth_drop append_Cons append_Nil)

lemma latched_fireTimeout: "latched r s \<Longrightarrow> latched r (fireTimeout i s)"
proof (cases "i < length (timeouts s)")
  case False
  assume "latched r s"
  with False show ?thesis by (simp add: fireTimeout_def)
next
  case True
  assume L: "latched r s"
  obtain d t where x: "timeouts s ! i = (d, t)" by (cases "timeouts s ! i")
  let ?rest = "take i (timeouts s) @ drop (Suc i) (timeouts s)"
  have split: "pendingReasons s =
      taskReasons (take i (timeouts s)) @ taskReasons [(d, t)] @
      taskReasons (drop (Suc i) (timeouts s))"
    using taskReasons_nth [OF True] x by (simp add: pendingReasons_def)
  show ?thesis
  proof (cases t)
    case (Teardown r')
    with split have "pendingReasons s =
        taskReasons (take i (timeouts s)) @ r' # taskReasons (drop (Suc i) (timeouts s))"
      by simp
    with L have "r' = r \<and> taskReasons (take i (timeouts s)) = [] \<and>
        taskReasons (drop (Suc i) (timeouts s)) = [] \<and> completions s = [] \<and>
        teardowns s = 0 \<and> terminationTriggered s"
      by (auto simp: latched_def append_eq_Cons_conv Cons_eq_append_conv)
    with True x Teardown show ?thesis
      by (simp add: fireTimeout_def latched_def Let_def disconnect_fields pendingReasons_def
          taskReasons_append)
  next
    case ClearViolation
    with split have "pendingReasons s = taskReasons ?rest" by (simp add: taskReasons_append)
    with L True x ClearViolation show ?thesis
      by (simp add: fireTimeout_def latched_def pendingReasons_def)
  next
    case ClearSilenceTriggered
    with split have "pendingReasons s = taskReasons ?rest" by (simp add: taskReasons_append)
    with L True x ClearSilenceTriggered show ?thesis
      by (simp add: fireTimeout_def latched_def pendingReasons_def)
  qed
qed

lemma latched_step: "latched r s \<Longrightarrow> latched r (step e s)"
proof (cases e)
  case (Message now m)
  assume "latched r s"
  with Message show ?thesis by (simp add: latched_onmessage)
next
  case (SilenceTick now)
  assume "latched r s"
  then have "latched r (silenceInterval now s)"
    by (rule latched_cong) (simp_all add: silenceInterval_fields)
  with SilenceTick show ?thesis by simp
next
  case CountdownTick
  assume "latched r s"
  with CountdownTick show ?thesis by (simp add: latched_countdownTick)
next
  case (VisibilityChange h)
  assume "latched r s"
  with VisibilityChange show ?thesis
    by (simp add: handleVisibilityChange_def latched_triggerViolation)
next
  case (TimeoutFires i)
  assume "latched r s"
  with TimeoutFires show ?thesis by (simp add: latched_fireTimeout)
next
  case (Terminate r')
  assume "latched r s"
  with Terminate show ?thesis by (simp add: latched_handleTermination)
qed (simp_all add: latched_def pendingReasons_def onopen_def onerror_def onclose_def onaudioprocess_def vadStep_def
      Let_def enqueueAudio_def sourceEnded_def preventContextMenu_def toggleMute_def
      split: option.splits)

lemma latched_run: "latched r s \<Longrightarrow> latched r (run es s)"
  by (induction es arbitrary: s) (simp_all add: latched_step)

lemma unlatched_toolCallBranch:
  "unlatched s \<Longrightarrow> toolCallBranch fcs s = s \<or> (\<exists>r. latched r (toolCallBranch fcs s))"
  by (auto simp: toolCallBranch_def split: option.splits
      dest: unlatched_handleTermination)

lemma onmessage_latch_view:
  "latched r (onmessage now m s) =
     latched r (case toolCall m of None \<Rightarrow> s | Some fcs \<Rightarrow> toolCallBranch fcs s)"
  "unlatched (onmessage now m s) =
     unlatched (case toolCall m of None \<Rightarrow> s | Some fcs \<Rightarrow> toolCallBranch fcs s)"
  by (simp_all add: latched_def unlatched_def pendingReasons_def onmessage_fields)

lemma unlatched_onmessage:
  "unlatched s \<Longrightarrow> unlatched (onmessage now m s) \<or> (\<exists>r. latched r (onmessage now m s))"
proof (cases "toolCall m")
  case None
  assume "unlatched s"
  with None show ?thesis by (simp add: onmessage_latch_view)
next
  case (Some fcs)
  assume "unlatched s"
  from unlatched_toolCallBranch [OF this, of fcs] this Some show ?thesis
    by (auto simp: onmessage_latch_view)
qed

lemma unlatched_triggerViolation:
  "unlatched s \<Longrightarrow>
   unlatched (triggerViolation msg s) \<or> latched securityViolation (triggerViolation msg s)"
  by (simp add: triggerViolation_def Let_def handleTermination_def latched_def unlatched_def
      pendingReasons_def taskReasons_append)

lemma unlatched_countdownTick:
  "unlatched s \<Longrightarrow>
   unlatched (countdownTick s) \<or> latched ''Time Limit Exceeded'' (countdownTick s)"
  by (simp add: countdownTick_def handleTermination_def latched_def unlatched_def
      pendingReasons_def taskReasons_append)

lemma unlatched_fireTimeout: "unlatched s \<Longrightarrow> unlatched (fireTimeout i s)"
proof (cases "i < length (timeouts s)")
  case False
  assume "unlatched s"
  with False show ?thesis by (simp add: fireTimeout_def)
next
  case True
  assume U: "unlatched s"
  obtain d t where x: "timeouts s ! i = (d, t)" by (cases "timeouts s ! i")
  have split: "pendingReasons s =
      taskReasons (take i (timeouts s)) @ taskReasons [(d, t)] @
      taskReasons (drop (Suc i) (timeouts s))"
    using taskReasons_nth [OF True] x by (simp add: pendingReasons_def)
  with U have e: "taskReasons (take i (timeouts s)) = []" "taskReasons [(d, t)] = []"
      "taskReasons (drop (Suc i) (timeouts s)) = []"
    by (simp_all add: unlatched_def)
  show ?thesis
  proof (cases t)
    case (Teardown r')
    with e show ?thesis by simp
  next
    case ClearViolation
    with U True x e show ?thesis
      by (simp add: fireTimeout_def unlatched_def pendingReasons_def taskReasons_append)
  next
    case ClearSilenceTriggered
    with U True x e show ?thesis
      by (simp add: fireTimeout_def unlatched_def pendingReasons_def taskReasons_append)
  qed
qed

lemma unlatched_step:
  "unlatched s \<Longrightarrow> unlatched (step e s) \<or> (\<exists>r. latched r (step e s))"
proof (cases e)
  case (Message now m)
  assume "unlatched s"
  with Message show ?thesis by (simp add: unlatched_onmessage)
next
  case (SilenceTick now)
  assume "unlatched s"
  then have "unlatched (silenceInterval now s)"
    by (rule unlatched_cong) (simp_all add: silenceInterval_fields)
  with SilenceTick show ?thesis by simp
next
  case CountdownTick
  assume "unlatched s"
  from unlatched_countdownTick [OF this] CountdownTick show ?thesis by auto
next
  case (VisibilityChange h)
  assume "unlatched s"
  from unlatched_triggerViolation [OF this] this VisibilityChange show ?thesis
    by (auto simp: handleVisibilityChange_def)
next
  case (TimeoutFires i)
  assume "unlatched s"
  with TimeoutFires show ?thesis by (simp add: unlatched_fireTimeout)
next
  case (Terminate r')
  assume "unlatched s"
  from unlatched_handleTermination [OF this] Terminate show ?thesis by auto
qed (simp_all add: unlatched_def pendingReasons_def onopen_def onerror_def onclose_def onaudioprocess_def vadStep_def
      Let_def enqueueAudio_def sourceEnded_def preventContextMenu_def toggleMute_def
      split: option.splits)

lemma run_latch_state:
  "unlatched s \<Longrightarrow> unlatched (run es s) \<or> (\<exists>r. latched r (run es s))"
proof (induction es arbitrary: s)
  case Nil
  then show ?case by simp
next
  case (Cons e es)
  from unlatched_step [OF Cons.prems, of e] show ?case
  proof
    assume "unlatched (step e s)"
    from Cons.IH [OF this] show ?thesis by simp
  next
    assume "\<exists>r. latched r (step e s)"
    then obtain r where "latched r (step e s)" ..
    then have "latched r (run es (step e s))" by (rule latched_run)
    then show ?thesis by auto
  qed
qed

lemma unlatched_initial: "unlatched (initialSession t0)"
  by (simp add: unlatched_def initialSession_def pendingReasons_def)

lemma pending_teardown_nth:
  "taskReasons ts = [r] \<Longrightarrow> \<exists>i<length ts. \<exists>d. ts ! i = (d, Teardown r) \<and>
      taskReasons (take i ts @ drop (Suc i) ts) = []"
proof (induction ts)
  case Nil
  then show ?case by simp
next
  case (Cons x ts)
  obtain d t where x: "x = (d, t)" by (cases x)
  show ?case
  proof (cases "\<exists>r'. t = Teardown r'")
    case True
    then obtain r' where t: "t = Teardown r'" ..
    with Cons.prems x have "r' = r" "taskReasons ts = []" by simp_all
    with x t have "(0::nat) < length (x # ts) \<and> (x # ts) ! 0 = (d, Teardown r) \<and>
        taskReasons (take 0 (x # ts) @ drop (Suc 0) (x # ts)) = []"
      by simp
    then show ?thesis by blast
  next
    case False
    then have other: "\<And>us. taskReasons ((d, t) # us) = taskReasons us"
      by (simp add: taskReasons_other)
    with Cons.prems x have "taskReasons ts = [r]" by simp
    from Cons.IH [OF this] obtain i d' where
      "i < length ts" "ts ! i = (d', Teardown r)"
      "taskReasons (take i ts @ drop (Suc i) ts) = []"
      by blast
    with x other have "Suc i < length (x # ts) \<and> (x # ts) ! Suc i = (d', Teardown r) \<and>
        taskReasons (take (Suc i) (x # ts) @ drop (Suc (Suc i)) (x # ts)) = []"
      by simp
    then show ?thesis by blast
  qed
qed

text \<open>
  C1. Whatever the events and their order, a session that started fresh is either
  unlatched (no termination accepted, nothing torn down, \<open>onComplete\<close> not called) or
  latched on one reason. The first call of \<open>handleTermination\<close> latches its own reason
  and sets one teardown timeout of 2000 ms. Once latched on \<open>r\<close>, every further call
  returns the state unchanged, and no event changes the reason: either the teardown is
  still pending, or \<open>disconnect\<close> has run once and \<open>onComplete\<close> has been called
  once, with \<open>r\<close>. The pending teardown, when it fires, runs \<open>disconnect\<close> once and
  calls \<open>onComplete\<close> once with the joined history and \<open>r\<close>. (The cleanup that
  follows when the caller unmounts the component is no call of \<open>handleTermination\<close>:
  it runs \<open>disconnect\<close> once more, and neither records a reason nor calls
  \<open>onComplete\<close>.)
\<close>

theorem handleTermination_exactly_once:
  "(unlatched (run es (initialSession t0)) \<or> (\<exists>r. latched r (run es (initialSession t0)))) \<and>
   (unlatched s \<longrightarrow>
      latched r (handleTermination r s) \<and>
      timeouts (handleTermination r s) = timeouts s @ [(2000, Teardown r)]) \<and>
   (latched r s \<longrightarrow>
      (\<forall>r'. handleTermination r' s = s) \<and> (\<forall>es'. latched r (run es' s))) \<and>
   (latched r s \<and> completions s = [] \<longrightarrow>
      (\<exists>i<length (timeouts s). \<exists>d.
         timeouts s ! i = (d, Teardown r) \<and>
         completions (fireTimeout i s) = [(join [CHR 0x0A] (fullTranscriptHistory s), r)] \<and>
         teardowns (fireTimeout i s) = 1 \<and>
         pendingReasons (fireTimeout i s) = [])) \<and>
   teardowns (unmountCleanup s) = teardowns s + 1 \<and>
   pendingReasons (unmountCleanup s) = pendingReasons s \<and>
   completions (unmountCleanup s) = completions s"
proof (intro conjI impI)
  show "unlatched (run es (initialSession t0)) \<or> (\<exists>r. latched r (run es (initialSession t0)))"
    by (rule run_latch_state [OF unlatched_initial])
next
  assume "unlatched s"
  then show "latched r (handleTermination r s)" by (rule unlatched_handleTermination)
next
  assume "unlatched s"
  then show "timeouts (handleTermination r s) = timeouts s @ [(2000, Teardown r)]"
    by (simp add: unlatched_def handleTermination_def)
next
  assume "latched r s"
  then show "\<forall>r'. handleTermination r' s = s" by (simp add: latched_handleTermination)
next
  assume "latched r s"
  then show "\<forall>es'. latched r (run es' s)" by (simp add: latched_run)
next
  assume a: "latched r s \<and> completions s = []"
  then have p: "taskReasons (timeouts s) = [r]" and t: "teardowns s = 0"
    by (auto simp: latched_def pendingReasons_def)
  from pending_teardown_nth [OF p] obtain i d where
    i: "i < length (timeouts s)" "timeouts s ! i = (d, Teardown r)"
       "taskReasons (take i (timeouts s) @ drop (Suc i) (timeouts s)) = []"
    by blast
  with a t have "timeouts s ! i = (d, Teardown r) \<and>
      completions (fireTimeout i s) = [(join [CHR 0x0A] (fullTranscriptHistory s), r)] \<and>
      teardowns (fireTimeout i s) = 1 \<and> pendingReasons (fireTimeout i s) = []"
    by (simp add: fireTimeout_def Let_def disconnect_fields pendingReasons_def)
  with i(1) show "\<exists>i<length (timeouts s). \<exists>d.
      timeouts s ! i = (d, Teardown r) \<and>
      completions (fireTimeout i s) = [(join [CHR 0x0A] (fullTranscriptHistory s), r)] \<and>
      teardowns (fireTimeout i s) = 1 \<and> pendingReasons (fireTimeout i s) = []"
    by blast
next
  show "teardowns (unmountCleanup s) = teardowns s + 1"
    by (simp add: unmountCleanup_def disconnect_fields)
next
  show "pendingReasons (unmountCleanup s) = pendingReasons s"
    by (simp add: unmountCleanup_def pendingReasons_def disconnect_fields)
next
  show "completions (unmountCleanup s) = completions s"
    by (simp add: unmountCleanup_def disconnect_fields)
qed

theorem handleTermination_exactly_once_witness:
  "unlatched (initialSession 0) \<and>
   latched ''Time Limit Exceeded'' (handleTermination ''Time Limit Exceeded'' (initialSession 0)) \<and>
   latched securityViolation raceSession \<and> completions raceSession = [] \<and>
   handleTermination ''Completed'' raceSession = raceSession \<and>
   (\<exists>i<length (timeouts raceSession). \<exists>d.
      timeouts raceSession ! i = (d, Teardown securityViolation) \<and>
      completions (fireTimeout i raceSession) =
        [(join [CHR 0x0A] (fullTranscriptHistory raceSession), securityViolation)] \<and>
      teardowns (fireTimeout i raceSession) = 1 \<and>
      pendingReasons (fireTimeout i raceSession) = [])"
proof -
  have u: "unlatched (initialSession 0)"
    by (simp add: unlatched_def initialSession_def pendingReasons_def)
  have l: "latched securityViolation raceSession"
    by (simp add: raceSession_def initialSession_def onopen_def handleVisibilityChange_def
        triggerViolation_def handleTermination_def onmessage_def toolCallBranch_def
        latched_def pendingReasons_def Let_def)
  have c: "completions raceSession = []"
    by (simp add: raceSession_def initialSession_def onopen_def handleVisibilityChange_def
        triggerViolation_def handleTermination_def onmessage_def toolCallBranch_def Let_def)
  from handleTermination_exactly_once [of "[]" 0 "initialSession 0" "''Time Limit Exceeded''"] u
  have a: "latched ''Time Limit Exceeded''
      (handleTermination ''Time Limit Exceeded'' (initialSession 0))"
    by blast
  from handleTermination_exactly_once [of "[]" 0 raceSession securityViolation] l c
  have b: "handleTermination ''Completed'' raceSession = raceSession \<and>
      (\<exists>i<length (timeouts raceSession). \<exists>d.
        timeouts raceSession ! i = (d, Teardown securityViolation) \<and>
        completions (fireTimeout i raceSession) =
          [(join [CHR 0x0A] (fullTranscriptHistory raceSession), securityViolation)] \<and>
        teardowns (fireTimeout i raceSession) = 1 \<and>
        pendingReasons (fireTimeout i raceSession) = [])"
    by blast
  from u a l c b show ?thesis by blast
qed

subsection \<open>The silence monitor\<close>

lemma includes_silent: "\<not> includes_str silentDirective ''still''"
  by (simp add: silentDirective_def startsWith_def)

lemma includes_still: "includes_str stillSilentDirective ''still''"
  by (simp add: stillSilentDirective_def startsWith_def)

lemma sendSystemMessage_canSend:
  "canSend s \<Longrightarrow>
   sendSystemMessage t s =
     s\<lparr>directives := directives s @ [t],
       systemMessageStatus :=
         Some (promptStatus (if includes_str t ''still'' then ''Skip'' else ''Reminder'')),
       silenceTriggered := True,
       timeouts := timeouts s @ [(3000, ClearSilenceTriggered)]\<rparr>"
  by (simp add: sendSystemMessage_def canSend_def promptStatus_def split: option.splits)

lemma sendSystemMessage_cannot: "\<not> canSend s \<Longrightarrow> sendSystemMessage t s = s"
  by (simp add: sendSystemMessage_def canSend_def split: option.splits)

lemma canSend_updates:
  "canSend (s\<lparr>isProcessingTimeout := p\<rparr>) = canSend s"
  "canSend (s\<lparr>silenceWarningCount := n\<rparr>) = canSend s"
  "canSend (s\<lparr>transcriptLines := ls\<rparr>) = canSend s"
  "canSend (s\<lparr>fullTranscriptHistory := h\<rparr>) = canSend s"
  by (simp_all add: canSend_def)

text \<open>
  C2 (amended). On a tick with the session connected, a response awaited, the agent not
  speaking, the lock free and more than 10 seconds since the agent's last turn end: the
  lock is taken and the strike counter incremented. At a count of 1 or 2 the transcript is
  untouched; beyond 2 the no-answer line is appended for the user to the display list and
  to the history and the counter goes back to 0. The directive (silent, resp. still
  silent) is delivered and the status (reminder, resp. skip) displayed when the session
  handle is held and its send does not throw; otherwise nothing is delivered and the
  displayed status stays as it was.
\<close>

theorem silenceInterval_escalation:
  assumes "isConnected s" and "isWaitingForResponse s" and "\<not> isAiSpeaking s"
    and "\<not> isProcessingTimeout s" and "now - lastAiTurnEndTime s > 10000"
  shows "isProcessingTimeout (silenceInterval now s) \<and>
    (silenceWarningCount s + 1 \<le> 2 \<longrightarrow>
       silenceWarningCount (silenceInterval now s) = silenceWarningCount s + 1 \<and>
       transcriptLines (silenceInterval now s) = transcriptLines s \<and>
       fullTranscriptHistory (silenceInterval now s) = fullTranscriptHistory s \<and>
       (canSend s \<longrightarrow>
          directives (silenceInterval now s) = directives s @ [silentDirective] \<and>
          systemMessageStatus (silenceInterval now s) = Some (promptStatus ''Reminder''))) \<and>
    (silenceWarningCount s + 1 > 2 \<longrightarrow>
       silenceWarningCount (silenceInterval now s) = 0 \<and>
       transcriptLines (silenceInterval now s) =
         transcriptLines s @ [\<lparr>speaker = user, lineText = silentEntry\<rparr>] \<and>
       fullTranscriptHistory (silenceInterval now s) =
         fullTranscriptHistory s @ [''User: '' @ silentEntry] \<and>
       (canSend s \<longrightarrow>
          directives (silenceInterval now s) = directives s @ [stillSilentDirective] \<and>
          systemMessageStatus (silenceInterval now s) = Some (promptStatus ''Skip''))) \<and>
    (\<not> canSend s \<longrightarrow>
       directives (silenceInterval now s) = directives s \<and>
       systemMessageStatus (silenceInterval now s) = systemMessageStatus s)"
proof (cases "canSend s")
  case True
  with assms show ?thesis
    by (simp add: silenceInterval_def Let_def sendSystemMessage_canSend canSend_updates
        includes_silent includes_still)
next
  case False
  with assms show ?thesis
    by (simp add: silenceInterval_def Let_def sendSystemMessage_cannot canSend_updates)
qed

text \<open>
  C2 as stated fails: all five conditions hold, the handle is held, its send throws; the
  strike is counted, no directive is delivered and no status is displayed.
\<close>

theorem silenceInterval_send_fails:
  "isConnected (awaitingSession \<lparr>sendThrows = True, closeThrows = False\<rparr>) \<and>
   isWaitingForResponse (awaitingSession \<lparr>sendThrows = True, closeThrows = False\<rparr>) \<and>
   \<not> isAiSpeaking (awaitingSession \<lparr>sendThrows = True, closeThrows = False\<rparr>) \<and>
   \<not> isProcessingTimeout (awaitingSession \<lparr>sendThrows = True, closeThrows = False\<rparr>) \<and>
   12000 - lastAiTurnEndTime (awaitingSession \<lparr>sendThrows = True, closeThrows = False\<rparr>)
     > 10000 \<and>
   silenceWarningCount
     (silenceInterval 12000 (awaitingSession \<lparr>sendThrows = True, closeThrows = False\<rparr>)) = 1 \<and>
   directives
     (silenceInterval 12000 (awaitingSession \<lparr>sendThrows = True, closeThrows = False\<rparr>)) = [] \<and>
   systemMessageStatus
     (silenceInterval 12000 (awaitingSession \<lparr>sendThrows = True, closeThrows = False\<rparr>)) = None"
  by (simp add: awaitingSession_def initialSession_def onopen_def onmessage_def
      contentBranch_def turnCompleteBranch_def silenceInterval_def sendSystemMessage_def
      Let_def)

theorem silenceInterval_escalation_witness:
  "directives (silenceInterval 12000 (awaitingSession \<lparr>sendThrows = False, closeThrows = False\<rparr>))
     = [silentDirective] \<and>
   systemMessageStatus
     (silenceInterval 12000 (awaitingSession \<lparr>sendThrows = False, closeThrows = False\<rparr>))
     = Some ''System: Prompting AI (Reminder)...'' \<and>
   silenceWarningCount
     (silenceInterval 12000 (awaitingSession \<lparr>sendThrows = False, closeThrows = False\<rparr>)) = 1 \<and>
   directives (silenceInterval 36000 (twoStrikes \<lparr>sendThrows = False, closeThrows = False\<rparr>))
     = [silentDirective, silentDirective, stillSilentDirective] \<and>
   systemMessageStatus
     (silenceInterval 36000 (twoStrikes \<lparr>sendThrows = False, closeThrows = False\<rparr>))
     = Some ''System: Prompting AI (Skip)...'' \<and>
   silenceWarningCount
     (silenceInterval 36000 (twoStrikes \<lparr>sendThrows = False, closeThrows = False\<rparr>)) = 0 \<and>
   fullTranscriptHistory
     (silenceInterval 36000 (twoStrikes \<lparr>sendThrows = False, closeThrows = False\<rparr>))
     = [''User: [No Answer - Time Limit Exceeded]'']"
proof -
  let ?s = "awaitingSession \<lparr>sendThrows = False, closeThrows = False\<rparr>"
  let ?t = "twoStrikes \<lparr>sendThrows = False, closeThrows = False\<rparr>"
  have h: "isConnected ?s" "isWaitingForResponse ?s" "\<not> isAiSpeaking ?s"
      "\<not> isProcessingTimeout ?s" "12000 - lastAiTurnEndTime ?s > 10000"
      "silenceWarningCount ?s = 0" "canSend ?s" "directives ?s = []"
    by (simp_all add: awaitingSession_def initialSession_def onopen_def onmessage_def
        contentBranch_def turnCompleteBranch_def canSend_def Let_def)
  have k: "isConnected ?t" "isWaitingForResponse ?t" "\<not> isAiSpeaking ?t"
      "\<not> isProcessingTimeout ?t" "36000 - lastAiTurnEndTime ?t > 10000"
      "silenceWarningCount ?t = 2" "canSend ?t"
      "directives ?t = [silentDirective, silentDirective]" "fullTranscriptHistory ?t = []"
    by (simp_all add: twoStrikes_def turnEnds_def awaitingSession_def initialSession_def
        onopen_def onmessage_def contentBranch_def turnCompleteBranch_def canSend_def
        silenceInterval_def sendSystemMessage_def Let_def)
  from silenceInterval_escalation [OF h(1-5)] h(6-8)
  have a: "directives (silenceInterval 12000 ?s) = [silentDirective] \<and>
      systemMessageStatus (silenceInterval 12000 ?s) = Some ''System: Prompting AI (Reminder)...'' \<and>
      silenceWarningCount (silenceInterval 12000 ?s) = 1"
    by (simp add: promptStatus_def)
  from silenceInterval_escalation [OF k(1-5)] k(6-9)
  have b: "directives (silenceInterval 36000 ?t) =
        [silentDirective, silentDirective, stillSilentDirective] \<and>
      systemMessageStatus (silenceInterval 36000 ?t) = Some ''System: Prompting AI (Skip)...'' \<and>
      silenceWarningCount (silenceInterval 36000 ?t) = 0 \<and>
      fullTranscriptHistory (silenceInterval 36000 ?t) =
        [''User: [No Answer - Time Limit Exceeded]'']"
    by (simp add: promptStatus_def silentEntry_def)
  from a b show ?thesis by blast
qed

subsection \<open>The transcript\<close>

lemma entry_prefix:
  "startsWith (entry l) ''AI:'' = (speaker l = ai)"
  "startsWith (entry l) ''User:'' = (speaker l = user)"
  by (cases "speaker l"; simp add: entry_def startsWith_def)+

lemma aiTranscript_lines:
  "transcriptLines (aiTranscript t s) =
     (if trim t = [] then transcriptLines s
      else mergeFragment ai '' '' (trim t) (transcriptLines s))"
  by (cases "transcriptLines s" rule: rev_cases)
     (simp_all add: aiTranscript_def mergeFragment_def Let_def)

lemma userTranscript_lines:
  "transcriptLines (userTranscript t s) =
     (if t = [] then transcriptLines s else mergeFragment user [] t (transcriptLines s))"
  by (cases "transcriptLines s" rule: rev_cases)
     (simp_all add: userTranscript_def mergeFragment_def Let_def)

lemma agree_aiTranscript: "agree s \<Longrightarrow> agree (aiTranscript t s)"
  by (cases "transcriptLines s" rule: rev_cases)
     (auto simp: agree_def aiTranscript_def Let_def entry_prefix, auto simp: entry_def)

lemma agree_userTranscript: "agree s \<Longrightarrow> agree (userTranscript t s)"
  by (cases "transcriptLines s" rule: rev_cases)
     (auto simp: agree_def userTranscript_def Let_def entry_prefix, auto simp: entry_def)

lemma handleTermination_transcript:
  "transcriptLines (handleTermination r s) = transcriptLines s"
  "fullTranscriptHistory (handleTermination r s) = fullTranscriptHistory s"
  by (simp_all add: handleTermination_def)

lemma sendSystemMessage_transcript:
  "transcriptLines (sendSystemMessage t s) = transcriptLines s"
  "fullTranscriptHistory (sendSystemMessage t s) = fullTranscriptHistory s"
  by (simp_all add: sendSystemMessage_def split: option.splits)

lemma agree_silenceInterval: "agree s \<Longrightarrow> agree (silenceInterval now s)"
  by (simp add: agree_def silenceInterval_def Let_def sendSystemMessage_transcript
      entry_def)

lemma agree_toolCallBranch: "agree s \<Longrightarrow> agree (toolCallBranch fcs s)"
  by (simp add: agree_def toolCallBranch_def handleTermination_transcript
      split: option.splits)

lemma agree_flags:
  "agree (interruptedBranch s) = agree s"
  "agree (contentBranch s) = agree s"
  "agree (turnCompleteBranch now s) = agree s"
  by (simp_all add: agree_def interruptedBranch_def contentBranch_def turnCompleteBranch_def)

lemma agree_onmessage: "agree s \<Longrightarrow> agree (onmessage now m s)"
  by (simp add: onmessage_def Let_def agree_toolCallBranch agree_flags agree_aiTranscript
      agree_userTranscript split: option.splits)

lemma agree_fireTimeout: "agree s \<Longrightarrow> agree (fireTimeout i s)"
proof (cases "i < length (timeouts s)")
  case False
  assume "agree s"
  with False show ?thesis by (simp add: fireTimeout_def)
next
  case True
  assume a: "agree s"
  show ?thesis
    by (cases "snd (timeouts s ! i)")
       (use a True in \<open>simp_all add: agree_def fireTimeout_def disconnect_def Let_def
          split: option.splits\<close>)
qed

lemma agree_step: "agree s \<Longrightarrow> agree (step e s)"
proof (cases e)
  case (Message now m)
  assume "agree s"
  with Message show ?thesis by (simp add: agree_onmessage)
next
  case (SilenceTick now)
  assume "agree s"
  with SilenceTick show ?thesis by (simp add: agree_silenceInterval)
next
  case (TimeoutFires i)
  assume "agree s"
  with TimeoutFires show ?thesis by (simp add: agree_fireTimeout)
qed (simp_all add: agree_def onopen_def onerror_def onclose_def onaudioprocess_def vadStep_def Let_def
      enqueueAudio_def sourceEnded_def countdownTick_def handleVisibilityChange_def
      triggerViolation_def handleTermination_def preventContextMenu_def toggleMute_def
      split: option.splits)

lemma agree_run: "agree s \<Longrightarrow> agree (run es s)"
  by (induction es arbitrary: s) (simp_all add: agree_step)

lemma trim_examples:
  "trim ''Hel'' = ''Hel''" "trim ''lo wor'' = ''lo wor''" "trim ''ld'' = ''ld''"
  "trim '' '' = []" "trim '' world '' = ''world''"
  by (simp_all add: trim_def trimStart_def trimEnd_def whiteSpace_def startsWith_def)

lemma userSays_step: "step (userSays t) s = userTranscript t (contentBranch s)"
  by (simp add: userSays_def onmessage_def Let_def)

lemma agentSays_step: "step (agentSays t) s = aiTranscript t (contentBranch s)"
  by (simp add: agentSays_def onmessage_def Let_def)

lemma user_example:
  "transcriptLines (run [userSays ''Hel'', userSays ''lo wor'', userSays ''ld'']
       (initialSession t0)) = [\<lparr>speaker = user, lineText = ''Hello world''\<rparr>] \<and>
   fullTranscriptHistory (run [userSays ''Hel'', userSays ''lo wor'', userSays ''ld'']
       (initialSession t0)) = [''User: Hello world'']"
  by (simp add: userSays_step userTranscript_def contentBranch_def initialSession_def
      Let_def startsWith_def)

lemma agent_example:
  "transcriptLines (run [agentSays ''Hel'', agentSays ''lo wor'', agentSays ''ld'']
       (initialSession t0)) = [\<lparr>speaker = ai, lineText = ''Hel lo wor ld''\<rparr>] \<and>
   fullTranscriptHistory (run [agentSays ''Hel'', agentSays ''lo wor'', agentSays ''ld'']
       (initialSession t0)) = [''AI: Hel lo wor ld'']"
  by (simp add: agentSays_step aiTranscript_def contentBranch_def initialSession_def
      Let_def startsWith_def trim_examples)

text \<open>
  C3 (amended). After every event of every execution the history is the list of the
  display lines' entries (speaker prefix and text), so the newline-joined history is the
  joined display content. An agent fragment is trimmed and dropped when nothing is left;
  otherwise it extends the last line when that line is the agent's, joined by one space,
  and starts a new agent line when it is not. A non-empty user fragment extends the last
  line when that line is the user's, by plain concatenation, and starts a new user line
  when it is not. The user fragments Hel, lo wor, ld make the one line Hello world; the
  same fragments from the agent make the one line Hel lo wor ld.
\<close>

theorem transcript_merge_consistent:
  "agree (run es (initialSession t0)) \<and>
   join [CHR 0x0A] (fullTranscriptHistory (run es (initialSession t0))) =
     join [CHR 0x0A] (map entry (transcriptLines (run es (initialSession t0)))) \<and>
   (agree s \<longrightarrow> agree (step e s)) \<and>
   transcriptLines (aiTranscript t s) =
     (if trim t = [] then transcriptLines s
      else mergeFragment ai '' '' (trim t) (transcriptLines s)) \<and>
   transcriptLines (userTranscript t s) =
     (if t = [] then transcriptLines s else mergeFragment user [] t (transcriptLines s)) \<and>
   transcriptLines (run [userSays ''Hel'', userSays ''lo wor'', userSays ''ld'']
       (initialSession t0)) = [\<lparr>speaker = user, lineText = ''Hello world''\<rparr>] \<and>
   fullTranscriptHistory (run [userSays ''Hel'', userSays ''lo wor'', userSays ''ld'']
       (initialSession t0)) = [''User: Hello world''] \<and>
   transcriptLines (run [agentSays ''Hel'', agentSays ''lo wor'', agentSays ''ld'']
       (initialSession t0)) = [\<lparr>speaker = ai, lineText = ''Hel lo wor ld''\<rparr>] \<and>
   fullTranscriptHistory (run [agentSays ''Hel'', agentSays ''lo wor'', agentSays ''ld'']
       (initialSession t0)) = [''AI: Hel lo wor ld'']"
proof -
  have i: "agree (initialSession t0)"
    by (simp add: agree_def initialSession_def)
  have r: "agree (run es (initialSession t0))"
    by (rule agree_run [OF i])
  then have j: "join [CHR 0x0A] (fullTranscriptHistory (run es (initialSession t0))) =
      join [CHR 0x0A] (map entry (transcriptLines (run es (initialSession t0))))"
    by (simp add: agree_def)
  have st: "agree s \<longrightarrow> agree (step e s)"
    by (simp add: agree_step)
  from r j st aiTranscript_lines [of t s] userTranscript_lines [of t s]
    user_example [of t0] agent_example [of t0]
  show ?thesis by blast
qed

text \<open>
  C3 as stated fails for the agent: its fragments Hel, lo wor, ld do not merge into
  Hello world, and a blank agent fragment after a user line appends no line.
\<close>

theorem agent_fragments_not_concatenated:
  "lineText (last (transcriptLines
      (run [agentSays ''Hel'', agentSays ''lo wor'', agentSays ''ld''] (initialSession 0))))
     \<noteq> ''Hello world'' \<and>
   transcriptLines (run [userSays ''Hi'', agentSays '' ''] (initialSession 0)) =
     [\<lparr>speaker = user, lineText = ''Hi''\<rparr>]"
  by (simp add: agentSays_step userSays_step aiTranscript_def userTranscript_def
      contentBranch_def initialSession_def Let_def startsWith_def trim_examples)

theorem transcript_merge_consistent_witness:
  "agree (initialSession 0) \<and>
   agree (step (SilenceTick 5) (step (userSays ''Hel'') (initialSession 0)))"
proof -
  have i: "agree (initialSession 0)"
    by (simp add: agree_def initialSession_def)
  from transcript_merge_consistent [of "[]" 0 "initialSession 0" "userSays ''Hel''"] i
  have "agree (step (userSays ''Hel'') (initialSession 0))" by blast
  with transcript_merge_consistent
    [of "[]" 0 "step (userSays ''Hel'') (initialSession 0)" "SilenceTick 5"] i
  show ?thesis by blast
qed

subsection \<open>The voice-activity detector\<close>








subsection \<open>The playback scheduler\<close>

lemma interruptedBranch_playback:
  "stoppedSources (interruptedBranch s) = stoppedSources s @ sources s"
  "sources (interruptedBranch s) = []"
  "nextAudioStartTime (interruptedBranch s) = 0"
  by (simp_all add: interruptedBranch_def)

lemma toolCallBranch_playback:
  "stoppedSources (toolCallBranch fcs s) = stoppedSources s"
  "sources (toolCallBranch fcs s) = sources s"
  "nextAudioStartTime (toolCallBranch fcs s) = nextAudioStartTime s"
  by (simp_all add: toolCallBranch_def handleTermination_def split: option.splits)

lemma transcript_playback:
  "stoppedSources (aiTranscript t s) = stoppedSources s"
  "sources (aiTranscript t s) = sources s"
  "nextAudioStartTime (aiTranscript t s) = nextAudioStartTime s"
  "stoppedSources (userTranscript t s) = stoppedSources s"
  "sources (userTranscript t s) = sources s"
  "nextAudioStartTime (userTranscript t s) = nextAudioStartTime s"
  by (simp_all add: aiTranscript_def userTranscript_def Let_def)

lemma flags_playback:
  "stoppedSources (contentBranch s) = stoppedSources s"
  "sources (contentBranch s) = sources s"
  "nextAudioStartTime (contentBranch s) = nextAudioStartTime s"
  "stoppedSources (turnCompleteBranch now s) = stoppedSources s"
  "sources (turnCompleteBranch now s) = sources s"
  "nextAudioStartTime (turnCompleteBranch now s) = nextAudioStartTime s"
  by (simp_all add: contentBranch_def turnCompleteBranch_def)

lemma onmessage_playback:
  "sources (onmessage now m s) =
     (case content m of None \<Rightarrow> sources s
      | Some c \<Rightarrow> if interrupted c then [] else sources s)"
  "nextAudioStartTime (onmessage now m s) =
     (case content m of None \<Rightarrow> nextAudioStartTime s
      | Some c \<Rightarrow> if interrupted c then 0 else nextAudioStartTime s)"
  "stoppedSources (onmessage now m s) =
     (case content m of None \<Rightarrow> stoppedSources s
      | Some c \<Rightarrow> if interrupted c then stoppedSources s @ sources s else stoppedSources s)"
  by (simp_all add: onmessage_def Let_def interruptedBranch_playback toolCallBranch_playback
      transcript_playback flags_playback split: option.splits)

text \<open>
  C5 (amended). The interruption branch stops every active playback source, clears the
  active set and puts the cursor back to 0, on its own and inside \<open>onmessage\<close>. The
  audio clock never being negative, the next buffer enqueued is scheduled at the clock
  read at that enqueue, and the cursor moves to its end.
\<close>

theorem interruption_flush:
  "stoppedSources (interruptedBranch s) = stoppedSources s @ sources s \<and>
   sources (interruptedBranch s) = [] \<and>
   nextAudioStartTime (interruptedBranch s) = 0 \<and>
   (content m = Some c \<and> interrupted c \<longrightarrow>
      stoppedSources (onmessage t m s) = stoppedSources s @ sources s \<and>
      sources (onmessage t m s) = [] \<and>
      nextAudioStartTime (onmessage t m s) = 0 \<and>
      (0 \<le> now \<longrightarrow>
         sources (enqueueAudio now d (onmessage t m s)) = [\<lparr>startAt = now, duration = d\<rparr>] \<and>
         nextAudioStartTime (enqueueAudio now d (onmessage t m s)) = now + d))"
proof (intro conjI impI)
  show "stoppedSources (interruptedBranch s) = stoppedSources s @ sources s"
    and "sources (interruptedBranch s) = []"
    and "nextAudioStartTime (interruptedBranch s) = 0"
    by (rule interruptedBranch_playback)+
next
  assume c: "content m = Some c \<and> interrupted c"
  then show stop: "stoppedSources (onmessage t m s) = stoppedSources s @ sources s"
    by (simp add: onmessage_playback)
  from c show empty: "sources (onmessage t m s) = []"
    by (simp add: onmessage_playback)
  from c show zero: "nextAudioStartTime (onmessage t m s) = 0"
    by (simp add: onmessage_playback)
  assume "0 \<le> now"
  then have start: "max now (nextAudioStartTime (onmessage t m s)) = now"
    by (simp add: zero)
  show "sources (enqueueAudio now d (onmessage t m s)) = [\<lparr>startAt = now, duration = d\<rparr>]"
    by (simp add: enqueueAudio_def Let_def start empty)
  show "nextAudioStartTime (enqueueAudio now d (onmessage t m s)) = now + d"
    by (simp add: enqueueAudio_def Let_def start)
qed

theorem interruption_flush_witness:
  "sources (enqueueAudio 9 2 (onmessage 0 interruption (enqueueAudio 5 30 (initialSession 0))))
     = [\<lparr>startAt = 9, duration = 2\<rparr>] \<and>
   stoppedSources (onmessage 0 interruption (enqueueAudio 5 30 (initialSession 0)))
     = [\<lparr>startAt = 5, duration = 30\<rparr>]"
proof -
  have c: "content interruption =
      Some \<lparr>turnComplete = False, interrupted = True, modelText = None,
            inputTranscription = None\<rparr> \<and>
      interrupted \<lparr>turnComplete = False, interrupted = True, modelText = None,
            inputTranscription = None\<rparr>"
    by (simp add: interruption_def)
  have e: "sources (enqueueAudio 5 30 (initialSession 0)) = [\<lparr>startAt = 5, duration = 30\<rparr>]"
      "stoppedSources (enqueueAudio 5 30 (initialSession 0)) = []"
    by (simp_all add: enqueueAudio_def initialSession_def Let_def)
  from interruption_flush [of "enqueueAudio 5 30 (initialSession 0)" interruption
      "\<lparr>turnComplete = False, interrupted = True, modelText = None,
        inputTranscription = None\<rparr>" 0 9 2] c e
  show ?thesis by simp
qed

text \<open>
  C5 as stated fails: a buffer enqueued at clock 5 puts the cursor at 35; the flush that
  follows, at a clock of 5 or more, leaves the cursor at 0 and not at the clock.
\<close>

theorem flush_cursor_not_clock:
  "nextAudioStartTime (enqueueAudio 5 30 (initialSession 0)) = 35 \<and>
   nextAudioStartTime (onmessage 0 interruption (enqueueAudio 5 30 (initialSession 0))) = 0 \<and>
   nextAudioStartTime (onmessage 0 interruption (enqueueAudio 5 30 (initialSession 0))) < 5"
  by (simp add: onmessage_playback interruption_def enqueueAudio_def initialSession_def Let_def)

lemma queued_enqueueAudio: "queued s \<Longrightarrow> 0 \<le> d \<Longrightarrow> queued (enqueueAudio now d s)"
  by (auto simp: queued_def enqueueAudio_def Let_def sorted_wrt_append list_all_iff)

lemma queued_same:
  "queued s \<Longrightarrow> sources s' = sources s \<Longrightarrow>
   nextAudioStartTime s' = nextAudioStartTime s \<Longrightarrow> queued s'"
  by (simp add: queued_def)

lemma queued_sourceEnded: "queued s \<Longrightarrow> queued (sourceEnded i s)"
proof -
  assume q: "queued s"
  let ?R = "\<lambda>a b. startAt a + duration a \<le> startAt b"
  have srt: "sorted_wrt ?R (sources s)" using q by (simp add: queued_def)
  have "sorted_wrt ?R (take i (sources s) @ drop (Suc i) (sources s))"
  proof -
    have "\<forall>x\<in>set (take i (sources s)). \<forall>y\<in>set (drop (Suc i) (sources s)). ?R x y"
    proof (intro ballI)
      fix x y
      assume x: "x \<in> set (take i (sources s))" and y: "y \<in> set (drop (Suc i) (sources s))"
      from srt have "sorted_wrt ?R (take i (sources s) @ drop i (sources s))" by simp
      then have all: "\<forall>a\<in>set (take i (sources s)). \<forall>b\<in>set (drop i (sources s)). ?R a b"
        unfolding sorted_wrt_append by blast
      have "drop (Suc i) (sources s) = drop 1 (drop i (sources s))" by simp
      with y have "y \<in> set (drop i (sources s))" by (metis in_set_dropD)
      with all x show "?R x y" by blast
    qed
    with srt show ?thesis
      by (simp add: sorted_wrt_append sorted_wrt_take sorted_wrt_drop)
  qed
  moreover have "list_all (\<lambda>a. 0 \<le> duration a \<and>
      startAt a + duration a \<le> nextAudioStartTime s)
      (take i (sources s) @ drop (Suc i) (sources s))"
    using q by (auto simp: queued_def list_all_iff dest: in_set_takeD in_set_dropD)
  ultimately show ?thesis by (simp add: queued_def sourceEnded_def)
qed

lemma queued_onmessage: "queued s \<Longrightarrow> queued (onmessage now m s)"
  by (simp add: queued_def onmessage_playback split: option.splits)

lemma queued_fireTimeout: "queued s \<Longrightarrow> queued (fireTimeout i s)"
proof (cases "i < length (timeouts s)")
  case False
  assume "queued s"
  with False show ?thesis by (simp add: fireTimeout_def)
next
  case True
  assume q: "queued s"
  show ?thesis
    by (cases "snd (timeouts s ! i)")
       (use q True in \<open>simp_all add: queued_def fireTimeout_def disconnect_def Let_def
          split: option.splits\<close>)
qed

lemma queued_silenceInterval: "queued s \<Longrightarrow> queued (silenceInterval now s)"
  by (erule queued_same)
     (simp_all add: silenceInterval_def sendSystemMessage_def Let_def split: option.splits)

lemma queued_step: "queued s \<Longrightarrow> streaming e \<Longrightarrow> queued (step e s)"
proof (cases e)
  case (Message now m)
  assume "queued s"
  with Message show ?thesis by (simp add: queued_onmessage)
next
  case (AudioDecoded now d)
  assume "queued s" "streaming e"
  with AudioDecoded show ?thesis by (simp add: queued_enqueueAudio)
next
  case (SourceEnded i)
  assume "queued s"
  with SourceEnded show ?thesis by (simp add: queued_sourceEnded)
next
  case (SilenceTick now)
  assume "queued s"
  with SilenceTick show ?thesis by (simp add: queued_silenceInterval)
next
  case (TimeoutFires i)
  assume "queued s"
  with TimeoutFires show ?thesis by (simp add: queued_fireTimeout)
qed (simp_all add: queued_def onerror_def onclose_def onaudioprocess_def vadStep_def Let_def countdownTick_def
      handleVisibilityChange_def triggerViolation_def handleTermination_def
      preventContextMenu_def toggleMute_def split: option.splits)

lemma queued_run: "queued s \<Longrightarrow> list_all streaming es \<Longrightarrow> queued (run es s)"
  by (induction es arbitrary: s) (simp_all add: queued_step)

text \<open>
  C6 (amended). An enqueue of a buffer whose duration is not negative never lowers the
  cursor and leaves it at or above the clock it read. The cursor after an enqueue is the
  end of the buffer just scheduled; that buffer starts no earlier than the cursor before,
  and exactly at it when the clock has not passed it. So from a fresh session, or from a
  session opened with no active source, and through any events of a stream in progress,
  the active sources never overlap and none ends after the cursor. The interruption
  branch and the session opening put the cursor back to 0.
\<close>

theorem playback_cursor_and_schedule:
  "(0 \<le> d \<longrightarrow>
      nextAudioStartTime s \<le> nextAudioStartTime (enqueueAudio now d s) \<and>
      now \<le> nextAudioStartTime (enqueueAudio now d s)) \<and>
   nextAudioStartTime (enqueueAudio now d s) =
     startAt (last (sources (enqueueAudio now d s))) +
     duration (last (sources (enqueueAudio now d s))) \<and>
   nextAudioStartTime s \<le> startAt (last (sources (enqueueAudio now d s))) \<and>
   (now \<le> nextAudioStartTime s \<longrightarrow>
      startAt (last (sources (enqueueAudio now d s))) = nextAudioStartTime s) \<and>
   queued (initialSession t0) \<and>
   (sources s = [] \<longrightarrow> queued (onopen t s)) \<and>
   (queued s \<and> list_all streaming es \<longrightarrow> queued (run es s)) \<and>
   nextAudioStartTime (interruptedBranch s) = 0 \<and>
   (isMounted s \<longrightarrow> nextAudioStartTime (onopen t s) = 0)"
proof -
  have a: "0 \<le> d \<longrightarrow>
      nextAudioStartTime s \<le> nextAudioStartTime (enqueueAudio now d s) \<and>
      now \<le> nextAudioStartTime (enqueueAudio now d s)"
    by (auto simp: enqueueAudio_def Let_def max_def)
  have b: "nextAudioStartTime (enqueueAudio now d s) =
      startAt (last (sources (enqueueAudio now d s))) +
      duration (last (sources (enqueueAudio now d s)))"
    by (simp add: enqueueAudio_def Let_def)
  have c: "nextAudioStartTime s \<le> startAt (last (sources (enqueueAudio now d s)))"
    by (simp add: enqueueAudio_def Let_def)
  have e: "now \<le> nextAudioStartTime s \<longrightarrow>
      startAt (last (sources (enqueueAudio now d s))) = nextAudioStartTime s"
    by (simp add: enqueueAudio_def Let_def)
  have f: "queued (initialSession t0)"
    by (simp add: queued_def initialSession_def)
  have g: "sources s = [] \<longrightarrow> queued (onopen t s)"
    by (simp add: queued_def onopen_def)
  have h: "queued s \<and> list_all streaming es \<longrightarrow> queued (run es s)"
    by (simp add: queued_run)
  have i: "nextAudioStartTime (interruptedBranch s) = 0"
    by (simp add: interruptedBranch_def)
  have j: "isMounted s \<longrightarrow> nextAudioStartTime (onopen t s) = 0"
    by (simp add: onopen_def)
  from a b c e f g h i j show ?thesis by blast
qed

theorem playback_cursor_and_schedule_witness:
  "queued (run [AudioDecoded 1 2, AudioDecoded 2 4, SourceEnded 0, AudioDecoded 9 1] listening) \<and>
   nextAudioStartTime (enqueueAudio 2 4 (enqueueAudio 1 2 listening)) = 7 \<and>
   startAt (last (sources (enqueueAudio 2 4 (enqueueAudio 1 2 listening)))) = 3"
proof -
  have q: "queued listening"
    by (simp add: queued_def listening_def initialSession_def onopen_def)
  have st: "list_all streaming [AudioDecoded 1 2, AudioDecoded 2 4, SourceEnded 0, AudioDecoded 9 1]"
    by simp
  have c: "nextAudioStartTime (enqueueAudio 1 2 listening) = 3"
    by (simp add: enqueueAudio_def listening_def initialSession_def onopen_def Let_def)
  from playback_cursor_and_schedule
    [of 4 "enqueueAudio 1 2 listening" 2 0 0
      "[AudioDecoded 1 2, AudioDecoded 2 4, SourceEnded 0, AudioDecoded 9 1]"] c
  have a: "nextAudioStartTime (enqueueAudio 2 4 (enqueueAudio 1 2 listening)) = 7 \<and>
      startAt (last (sources (enqueueAudio 2 4 (enqueueAudio 1 2 listening)))) = 3"
    by (simp add: enqueueAudio_def Let_def)
  from playback_cursor_and_schedule
    [of 4 listening 2 0 0
      "[AudioDecoded 1 2, AudioDecoded 2 4, SourceEnded 0, AudioDecoded 9 1]"] q st
  have b: "queued (run [AudioDecoded 1 2, AudioDecoded 2 4, SourceEnded 0, AudioDecoded 9 1]
      listening)"
    by blast
  from a b show ?thesis by blast
qed

text \<open>
  C6 as stated fails: after a buffer of 2 seconds enqueued at clock 1 the cursor is 3;
  the interruption that follows puts it at 0, below its earlier value and below the clock.
\<close>

theorem cursor_falls_back:
  "nextAudioStartTime (run [AudioDecoded 1 2] listening) = 3 \<and>
   nextAudioStartTime (run [AudioDecoded 1 2, Message 2 interruption] listening) = 0 \<and>
   nextAudioStartTime (run [AudioDecoded 1 2, Message 2 interruption] listening) <
     nextAudioStartTime (run [AudioDecoded 1 2] listening) \<and>
   nextAudioStartTime (run [AudioDecoded 1 2, Message 2 interruption] listening) < 1"
  by (simp add: onmessage_playback interruption_def enqueueAudio_def listening_def
      initialSession_def onopen_def Let_def)

subsection \<open>Proctoring\<close>

lemma run_append: "run (xs @ ys) s = run ys (run xs s)"
  by (induction xs arbitrary: s) simp_all

lemma violation_fields:
  "violationMessage (triggerViolation msg s) = Some msg"
  "warningCount (triggerViolation msg s) = warningCount s + 1"
  "timeouts (triggerViolation msg s) =
     timeouts (if warningCount s + 1 \<ge> 3 then handleTermination securityViolation s else s) @
     [(3000, ClearViolation)]"
  by (simp_all add: triggerViolation_def Let_def handleTermination_def)

lemma violation_clears:
  "violationMessage
     (fireTimeout (length (timeouts (triggerViolation msg s)) - 1) (triggerViolation msg s)) =
   None"
  by (simp add: fireTimeout_def violation_fields nth_append)

lemma violation_below_three:
  "unlatched s \<Longrightarrow> warningCount s + 1 < 3 \<Longrightarrow> unlatched (triggerViolation msg s)"
  by (simp add: triggerViolation_def Let_def unlatched_def pendingReasons_def
      taskReasons_append)

lemma violation_third:
  "unlatched s \<Longrightarrow> warningCount s + 1 \<ge> 3 \<Longrightarrow>
   latched securityViolation (triggerViolation msg s)"
  by (simp add: triggerViolation_def Let_def unlatched_def latched_def pendingReasons_def
      taskReasons_append handleTermination_def)

lemma tabSwitches_below:
  "unlatched s \<Longrightarrow> warningCount s + n < 3 \<Longrightarrow>
   unlatched (run (tabSwitches n) s) \<and> warningCount (run (tabSwitches n) s) = warningCount s + n"
proof (induction n arbitrary: s)
  case 0
  then show ?case by (simp add: tabSwitches_def)
next
  case (Suc n)
  let ?s = "triggerViolation ''Tab switch detected.'' s"
  from Suc.prems have u: "unlatched ?s" by (simp add: violation_below_three)
  from Suc.prems have c: "warningCount ?s + n < 3" by (simp add: violation_fields)
  from Suc.IH [OF u c] show ?case
    by (simp add: tabSwitches_def handleVisibilityChange_def violation_fields)
qed

lemma tabSwitches_count: "warningCount (run (tabSwitches n) s) = warningCount s + n"
  by (induction n arbitrary: s)
     (simp_all add: tabSwitches_def handleVisibilityChange_def violation_fields)

lemma tabSwitches_three:
  assumes "unlatched s" and "warningCount s < 3" and "warningCount s + n \<ge> 3"
  shows "latched securityViolation (run (tabSwitches n) s)"
proof -
  define m where "m = 2 - warningCount s"
  define k where "k = n - m - 1"
  from assms have n: "n = m + (1 + k)" by (simp add: m_def k_def)
  from assms have "warningCount s + m < 3" by (simp add: m_def)
  from tabSwitches_below [OF assms(1) this]
  have u: "unlatched (run (tabSwitches m) s)"
    and c: "warningCount (run (tabSwitches m) s) = 2"
    using assms by (simp_all add: m_def)
  have "latched securityViolation
      (triggerViolation ''Tab switch detected.'' (run (tabSwitches m) s))"
    by (rule violation_third [OF u]) (simp add: c)
  then have "latched securityViolation (run (tabSwitches k)
      (triggerViolation ''Tab switch detected.'' (run (tabSwitches m) s)))"
    by (rule latched_run)
  moreover have "tabSwitches n = tabSwitches m @ [VisibilityChange True] @ tabSwitches k"
    by (simp add: n tabSwitches_def replicate_add replicate_append_same)
  ultimately show ?thesis
    by (simp add: run_append handleVisibilityChange_def)
qed

text \<open>
  C7 (amended). Every tab or visibility loss displays the warning, sets the 3000 ms
  timeout that clears it, and increments the strike counter by exactly one. Below three
  strikes nothing is terminated; the strike that brings the counter to three calls
  \<open>handleTermination\<close> with the security-violation reason, and whatever follows,
  further violations included, the session stays latched on that reason: one teardown,
  one call of \<open>onComplete\<close>. A change back to visible does nothing, and a context-menu
  action is only blocked: no warning, no strike.
\<close>

theorem proctoring_three_strikes:
  "violationMessage (handleVisibilityChange True s) = Some ''Tab switch detected.'' \<and>
   warningCount (handleVisibilityChange True s) = warningCount s + 1 \<and>
   timeouts (handleVisibilityChange True s) =
     timeouts (if warningCount s + 1 \<ge> 3 then handleTermination securityViolation s else s) @
     [(3000, ClearViolation)] \<and>
   violationMessage
     (fireTimeout (length (timeouts (handleVisibilityChange True s)) - 1)
        (handleVisibilityChange True s)) = None \<and>
   (unlatched s \<and> warningCount s + 1 < 3 \<longrightarrow> unlatched (handleVisibilityChange True s)) \<and>
   (unlatched s \<and> warningCount s + 1 \<ge> 3 \<longrightarrow>
      (\<forall>es. latched securityViolation (run es (handleVisibilityChange True s)))) \<and>
   warningCount (run (tabSwitches n) (initialSession t0)) = n \<and>
   (n < 3 \<longrightarrow> unlatched (run (tabSwitches n) (initialSession t0))) \<and>
   (n \<ge> 3 \<longrightarrow> (\<forall>es. latched securityViolation (run (tabSwitches n @ es) (initialSession t0)))) \<and>
   handleVisibilityChange False s = s \<and>
   preventContextMenu s = s"
proof -
  let ?v = "handleVisibilityChange True s"
  have v: "?v = triggerViolation ''Tab switch detected.'' s"
    by (simp add: handleVisibilityChange_def)
  have i: "unlatched (initialSession t0)" "warningCount (initialSession t0) = 0"
    by (simp_all add: unlatched_def initialSession_def pendingReasons_def)
  have a: "violationMessage ?v = Some ''Tab switch detected.''"
    by (simp add: v violation_fields)
  have b: "warningCount ?v = warningCount s + 1"
    by (simp add: v violation_fields)
  have c: "timeouts ?v =
      timeouts (if warningCount s + 1 \<ge> 3 then handleTermination securityViolation s else s) @
      [(3000, ClearViolation)]"
    unfolding v by (rule violation_fields)
  have d: "violationMessage (fireTimeout (length (timeouts ?v) - 1) ?v) = None"
    unfolding v by (rule violation_clears)
  have e: "unlatched s \<and> warningCount s + 1 < 3 \<longrightarrow> unlatched ?v"
    by (simp add: v violation_below_three)
  have f: "unlatched s \<and> warningCount s + 1 \<ge> 3 \<longrightarrow>
      (\<forall>es. latched securityViolation (run es ?v))"
    using violation_third [of s "''Tab switch detected.''"] by (auto simp: v intro: latched_run)
  have g: "warningCount (run (tabSwitches n) (initialSession t0)) = n"
    by (simp add: tabSwitches_count i)
  have h: "n < 3 \<longrightarrow> unlatched (run (tabSwitches n) (initialSession t0))"
    using tabSwitches_below [OF i(1), of n] by (simp add: i)
  have j: "n \<ge> 3 \<longrightarrow>
      (\<forall>es. latched securityViolation (run (tabSwitches n @ es) (initialSession t0)))"
    using tabSwitches_three [OF i(1), of n] by (auto simp: i run_append intro: latched_run)
  have k: "handleVisibilityChange False s = s" "preventContextMenu s = s"
    by (simp_all add: handleVisibilityChange_def preventContextMenu_def)
  from a b c d e f g h j k show ?thesis by blast
qed

text \<open>
  C7 as stated fails: a context-menu action on a fresh session shows no warning, counts
  no strike and sets no timeout.
\<close>

theorem context_menu_is_no_violation:
  "warningCount (step ContextMenu (initialSession 0)) = 0 \<and>
   violationMessage (step ContextMenu (initialSession 0)) = None \<and>
   timeouts (step ContextMenu (initialSession 0)) = []"
  by (simp add: preventContextMenu_def initialSession_def)

theorem proctoring_three_strikes_witness:
  "unlatched (run (tabSwitches 2) (initialSession 0)) \<and>
   latched securityViolation
     (run (tabSwitches 3 @ [VisibilityChange True, VisibilityChange True]) (initialSession 0)) \<and>
   latched securityViolation
     (run [VisibilityChange True] (handleVisibilityChange True (run (tabSwitches 2) (initialSession 0))))"
proof -
  have t: "(2::nat) < 3" "(3::nat) \<ge> 3" by simp_all
  from proctoring_three_strikes [of "initialSession 0" 2 0] t
  have a: "unlatched (run (tabSwitches 2) (initialSession 0))" by blast
  have w: "warningCount (run (tabSwitches 2) (initialSession 0)) + 1 \<ge> 3"
    using proctoring_three_strikes [of "initialSession 0" 2 0] by simp
  from proctoring_three_strikes [of "initialSession 0" 3 0] t
  have b: "latched securityViolation
      (run (tabSwitches 3 @ [VisibilityChange True, VisibilityChange True]) (initialSession 0))"
    by blast
  from proctoring_three_strikes [of "run (tabSwitches 2) (initialSession 0)" 0 0] a w
  have c: "latched securityViolation
      (run [VisibilityChange True]
         (handleVisibilityChange True (run (tabSwitches 2) (initialSession 0))))"
    by blast
  from a b c show ?thesis by blast
qed

subsection \<open>Mute\<close>









subsection \<open>The completion handler\<close>




lemma scoreTranscript_settles:
  "result (scoreTranscript toNumber transcript reply a) \<noteq> None \<and>
   appStep (scoreTranscript toNumber transcript reply a) = RESULT"
  by (simp add: scoreTranscript_def evaluationFailed_def Let_def
      split: scoringReply.splits option.splits json.splits)

lemma scored_handle:
  "scored reason \<Longrightarrow>
   handleInterviewComplete toNumber transcript reason reply a =
     scoreTranscript toNumber transcript reply (a\<lparr>appStep := EVALUATING\<rparr>)"
  by (auto simp: scored_def handleInterviewComplete_def Let_def)

text \<open>
  C10 (amended). When the transcript goes to scoring, whatever the reply, a result is set
  and the result screen shown. A request that throws, a text that does not parse and a
  parsed \<open>null\<close> give the result of the \<open>catch\<close> block: rating 0, not passed, the
  error feedback. A response without text is read as the empty object and gives rating 0,
  not passed, and the feedback No feedback provided. A parsed response without a rating
  gives rating 0 and not passed; one with a numeric rating is passed exactly when the
  rating exceeds 6.
\<close>

theorem evaluation_always_yields_result:
  assumes "scored reason"
  shows "result (handleInterviewComplete toNumber transcript reason reply a) \<noteq> None \<and>
    appStep (handleInterviewComplete toNumber transcript reason reply a) = RESULT \<and>
    (reply = Rejected \<or> (t \<noteq> [] \<and> (reply = Responded (Some t) None \<or>
                                        reply = Responded (Some t) (Some JNull))) \<longrightarrow>
       result (handleInterviewComplete toNumber transcript reason reply a) = Some errorResult) \<and>
    (reply = Responded None p \<or> reply = Responded (Some []) p \<longrightarrow>
       result (handleInterviewComplete toNumber transcript reason reply a) = Some emptyResult) \<and>
    (t \<noteq> [] \<and> reply = Responded (Some t) (Some data) \<and> data \<noteq> JNull \<and>
     getProp data ''rating'' = None \<longrightarrow>
       (\<exists>res. result (handleInterviewComplete toNumber transcript reason reply a) = Some res \<and>
              rating res = JNumber 0 \<and> \<not> passed res)) \<and>
    (t \<noteq> [] \<and> reply = Responded (Some t) (Some data) \<and>
     getProp data ''rating'' = Some (JNumber x) \<longrightarrow>
       (\<exists>res. result (handleInterviewComplete toNumber transcript reason reply a) = Some res \<and>
              rating res = JNumber x \<and> passed res = (x > 6)))"
proof -
  note h = scored_handle [OF assms]
  have a: "result (handleInterviewComplete toNumber transcript reason reply a) \<noteq> None \<and>
      appStep (handleInterviewComplete toNumber transcript reason reply a) = RESULT"
    unfolding h by (rule scoreTranscript_settles)
  have b: "reply = Rejected \<or> (t \<noteq> [] \<and> (reply = Responded (Some t) None \<or>
        reply = Responded (Some t) (Some JNull))) \<longrightarrow>
      result (handleInterviewComplete toNumber transcript reason reply a) = Some errorResult"
    unfolding h
    by (auto simp: scoreTranscript_def evaluationFailed_def errorResult_def Let_def)
  have c: "reply = Responded None p \<or> reply = Responded (Some []) p \<longrightarrow>
      result (handleInterviewComplete toNumber transcript reason reply a) = Some emptyResult"
    unfolding h
    by (auto simp: scoreTranscript_def emptyResult_def Let_def getProp_def orElse_def
        greaterThan6_def)
  have d: "t \<noteq> [] \<and> reply = Responded (Some t) (Some data) \<and> data \<noteq> JNull \<and>
      getProp data ''rating'' = None \<longrightarrow>
      (\<exists>res. result (handleInterviewComplete toNumber transcript reason reply a) = Some res \<and>
             rating res = JNumber 0 \<and> \<not> passed res)"
    unfolding h
    by (cases data) (auto simp: scoreTranscript_def Let_def orElse_def greaterThan6_def)
  have e: "t \<noteq> [] \<and> reply = Responded (Some t) (Some data) \<and>
      getProp data ''rating'' = Some (JNumber x) \<longrightarrow>
      (\<exists>res. result (handleInterviewComplete toNumber transcript reason reply a) = Some res \<and>
             rating res = JNumber x \<and> passed res = (x > 6))"
    unfolding h
    by (cases data)
       (auto simp: scoreTranscript_def Let_def orElse_def greaterThan6_def truthy_def
          getProp_def)
  from a b c d e show ?thesis by blast
qed

text \<open>
  C10 as stated fails: a response without text does not get the error feedback of a
  failed request but the default feedback.
\<close>

theorem empty_response_is_not_the_error_fallback:
  "result (handleInterviewComplete (\<lambda>v. None) ''AI: Hello'' (Some ''Completed'')
      (Responded None None) interviewing) = Some emptyResult \<and>
   feedback emptyResult = JString ''No feedback provided.'' \<and>
   result (handleInterviewComplete (\<lambda>v. None) ''AI: Hello'' (Some ''Completed'')
      Rejected interviewing) = Some errorResult \<and>
   feedback errorResult = JString ''An error occurred during evaluation. Please try again.'' \<and>
   feedback emptyResult \<noteq> feedback errorResult"
  by (simp add: handleInterviewComplete_def scoreTranscript_def evaluationFailed_def
      interviewing_def errorResult_def emptyResult_def getProp_def orElse_def
      greaterThan6_def Let_def)

theorem evaluation_always_yields_result_witness:
  "scored (Some ''Completed'') \<and>
   result (handleInterviewComplete (\<lambda>v. None) ''AI: Hello'' (Some ''Completed'')
      (Responded (Some ''not json'') None) interviewing) = Some errorResult \<and>
   (\<exists>res. result (handleInterviewComplete (\<lambda>v. None) ''AI: Hello'' (Some ''Completed'')
      (Responded (Some ''{}'') (Some (JObject [])))
      interviewing) = Some res \<and> rating res = JNumber 0 \<and> \<not> passed res) \<and>
   (\<exists>res. result (handleInterviewComplete (\<lambda>v. None) ''AI: Hello'' (Some ''Completed'')
      (Responded (Some ratingEight) (Some (JObject [(''rating'', JNumber 8)])))
      interviewing) = Some res \<and> rating res = JNumber 8 \<and> passed res)"
proof -
  have s: "scored (Some ''Completed'')" by (simp add: scored_def)
  from evaluation_always_yields_result
    [OF s, of "\<lambda>v. None" "''AI: Hello''" "Responded (Some ''not json'') None" interviewing
      "''not json''"]
  have a: "result (handleInterviewComplete (\<lambda>v. None) ''AI: Hello'' (Some ''Completed'')
      (Responded (Some ''not json'') None) interviewing) = Some errorResult"
    by simp
  have g: "getProp (JObject []) ''rating'' = None"
      "getProp (JObject [(''rating'', JNumber 8)]) ''rating'' = Some (JNumber 8)"
      "ratingEight \<noteq> []"
    by (simp_all add: getProp_def ratingEight_def)
  from evaluation_always_yields_result
    [OF s, of "\<lambda>v. None" "''AI: Hello''"
      "Responded (Some ''{}'') (Some (JObject []))"
      interviewing "''{}''" None "JObject []"] g
  have b: "\<exists>res. result (handleInterviewComplete (\<lambda>v. None) ''AI: Hello'' (Some ''Completed'')
      (Responded (Some ''{}'') (Some (JObject [])))
      interviewing) = Some res \<and> rating res = JNumber 0 \<and> \<not> passed res"
    by simp
  from evaluation_always_yields_result
    [OF s, of "\<lambda>v. None" "''AI: Hello''"
      "Responded (Some ratingEight) (Some (JObject [(''rating'', JNumber 8)]))"
      interviewing "ratingEight" None "JObject [(''rating'', JNumber 8)]" 8] g
  have c: "\<exists>res. result (handleInterviewComplete (\<lambda>v. None) ''AI: Hello'' (Some ''Completed'')
      (Responded (Some ratingEight) (Some (JObject [(''rating'', JNumber 8)])))
      interviewing) = Some res \<and> rating res = JNumber 8 \<and> passed res"
    by simp
  from s a b c show ?thesis by blast
qed

end
